theory Spec2Isabelle
  imports Complex_Main
begin

section \<open>JavaScript values used by the converters\<close>

text \<open>
  A \<open>number\<close> is a binary64 value: \<open>Fin r\<close> is the finite double whose exact value is
  the real \<open>r\<close>, beside the two infinities and \<open>NaN\<close>. Negative zero is not told apart from
  zero: the converters never divide by a zero that could be negative, and \<open>===\<close> and
  \<open><\<close> do not tell the two apart either.
\<close>

datatype number = Fin real | PosInf | NegInf | NaN

text \<open>
  What the converters need of the runtime and cannot compute themselves: \<open>toDouble\<close>
  rounds a real to the nearest double (an infinity when it is out of range), \<open>pow10\<close> is
  \<open>Math.pow(10, p)\<close>, whose accuracy the language leaves to the implementation. Both are
  parameters of the model; every property below holds whatever they are.
\<close>

record Runtime =
  toDouble :: "real \<Rightarrow> number"
  pow10 :: "number \<Rightarrow> number"

definition isNegative :: "number \<Rightarrow> bool" where
  "isNegative a = (case a of Fin x \<Rightarrow> x < 0 | NegInf \<Rightarrow> True | _ \<Rightarrow> False)"

definition infinity :: "bool \<Rightarrow> number" where
  "infinity negative = (if negative then NegInf else PosInf)"

text \<open>The operators \<open>-\<close>, \<open>*\<close> and \<open>/\<close>: correctly rounded on finite operands, and as
  IEEE 754 has them on the others.\<close>

fun minus :: "Runtime \<Rightarrow> number \<Rightarrow> number \<Rightarrow> number" where
  "minus rt (Fin x) (Fin y) = toDouble rt (x - y)"
| "minus rt NaN b = NaN"
| "minus rt a NaN = NaN"
| "minus rt PosInf PosInf = NaN"
| "minus rt NegInf NegInf = NaN"
| "minus rt PosInf b = PosInf"
| "minus rt NegInf b = NegInf"
| "minus rt (Fin x) PosInf = NegInf"
| "minus rt (Fin x) NegInf = PosInf"

fun times :: "Runtime \<Rightarrow> number \<Rightarrow> number \<Rightarrow> number" where
  "times rt (Fin x) (Fin y) = toDouble rt (x * y)"
| "times rt NaN b = NaN"
| "times rt a NaN = NaN"
| "times rt a b =
     (if a = Fin 0 \<or> b = Fin 0 then NaN else infinity (isNegative a \<noteq> isNegative b))"

fun divide :: "Runtime \<Rightarrow> number \<Rightarrow> number \<Rightarrow> number" where
  "divide rt (Fin x) (Fin y) =
     (if y \<noteq> 0 then toDouble rt (x / y)
      else if x = 0 then NaN else infinity (x < 0))"
| "divide rt NaN b = NaN"
| "divide rt a NaN = NaN"
| "divide rt (Fin x) b = Fin 0"
| "divide rt a (Fin y) = infinity (isNegative a \<noteq> (y < 0))"
| "divide rt a b = NaN"

text \<open>\<open>Math.round\<close>: the nearest integer, a tie going to the larger one; exact on every
  double. \<open>===\<close> on numbers: \<open>NaN\<close> equals nothing.\<close>

fun Math_round :: "number \<Rightarrow> number" where
  "Math_round (Fin x) = Fin (of_int \<lfloor>x + 1 / 2\<rfloor>)"
| "Math_round a = a"

definition strictEq :: "number \<Rightarrow> number \<Rightarrow> bool" where
  "strictEq a b = (a \<noteq> NaN \<and> a = b)"

text \<open>
  A character is a UTF-16 code unit below 256. White space as matched by \<open>\s\<close> and
  removed by \<open>String.prototype.trim\<close>: tab, line feed, vertical tab, form feed, carriage
  return, space and no-break space (the other white space characters of the language lie
  above 255).
\<close>

definition isSpace :: "char \<Rightarrow> bool" where
  "isSpace c = (c = CHR 0x09 \<or> c = CHR 0x0A \<or> c = CHR 0x0B \<or> c = CHR 0x0C
                \<or> c = CHR 0x0D \<or> c = CHR '' '' \<or> c = CHR 0xA0)"

definition trim :: "string \<Rightarrow> string" where
  "trim s = rev (dropWhile isSpace (rev (dropWhile isSpace s)))"

text \<open>\<open>s.split(/\s+/)\<close>: every maximal run of white space separates two pieces; the
  empty string gives one empty piece, leading or trailing white space gives an empty first
  or last piece.\<close>

function splitWs :: "string \<Rightarrow> string \<Rightarrow> string list" where
  "splitWs cur [] = [cur]"
| "splitWs cur (c # cs) =
     (if isSpace c then cur # splitWs [] (dropWhile isSpace cs)
      else splitWs (cur @ [c]) cs)"
  by pat_completeness auto
termination
  by (relation "measure (\<lambda>(cur, s). length s)")
     (auto simp: length_dropWhile_le less_Suc_eq_le)

definition split_ws :: "string \<Rightarrow> string list" where
  "split_ws s = splitWs [] s"

subsection \<open>\<open>parseFloat\<close>\<close>

definition isDigit :: "char \<Rightarrow> bool" where
  "isDigit c = (48 \<le> (of_char c :: nat) \<and> (of_char c :: nat) \<le> 57)"

definition digitsValue :: "string \<Rightarrow> nat" where
  "digitsValue ds = foldl (\<lambda>a c. 10 * a + ((of_char c :: nat) - 48)) 0 ds"

definition takeSign :: "string \<Rightarrow> bool \<times> string" where
  "takeSign s =
     (case s of
        c # r \<Rightarrow> if c = CHR ''-'' then (True, r) else if c = CHR ''+'' then (False, r)
                 else (False, s)
      | [] \<Rightarrow> (False, s))"

definition exponentPart :: "string \<Rightarrow> int" where
  "exponentPart s =
     (case s of
        c # r \<Rightarrow>
          if c = CHR ''e'' \<or> c = CHR ''E'' then
            (let (eneg, r') = takeSign r; ed = takeWhile isDigit r'
             in if ed = [] then 0
                else if eneg then - int (digitsValue ed) else int (digitsValue ed))
          else 0
      | [] \<Rightarrow> 0)"

text \<open>
  The builtin \<open>parseFloat\<close>: leading white space is skipped, then a sign, then either the
  word \<open>Infinity\<close> or the longest prefix that is a decimal literal (digits, fraction,
  exponent), whose value is rounded to a double; \<open>NaN\<close> when there is neither.
\<close>

definition parseFloat :: "Runtime \<Rightarrow> string \<Rightarrow> number" where
  "parseFloat rt s =
     (let (neg, u) = takeSign (dropWhile isSpace s)
      in if take 8 u = ''Infinity'' then infinity neg
         else
           (let ip = takeWhile isDigit u;
                r1 = dropWhile isDigit u;
                (fp, r2) = (case r1 of
                              c # r \<Rightarrow> if c = CHR ''.''
                                       then (takeWhile isDigit r, dropWhile isDigit r)
                                       else ([], r1)
                            | [] \<Rightarrow> ([], r1))
            in if ip = [] \<and> fp = [] then NaN
               else toDouble rt
                      ((if neg then - 1 else 1)
                       * (of_nat (digitsValue ip) + of_nat (digitsValue fp) / 10 ^ length fp)
                       * power_int 10 (exponentPart r2))))"

text \<open>Reading component \<open>i\<close> of an array: \<open>None\<close> (\<open>undefined\<close>) past its end.\<close>

definition item :: "'a list \<Rightarrow> nat \<Rightarrow> 'a option" where
  "item xs i = (if i < length xs then Some (xs ! i) else None)"

section \<open>GeoJSON data\<close>

text \<open>The GeoJSON types, over the type \<open>'n\<close> of the components of a position.
  \<open>OtherGeometry t\<close> is an object whose \<open>type\<close> tag \<open>t\<close> is none of the seven
  geometry kinds, nor \<open>Feature\<close> or \<open>FeatureCollection\<close>.\<close>

datatype 'n Geometry =
    Point "'n list"
  | MultiPoint "'n list list"
  | LineString "'n list list"
  | MultiLineString "'n list list list"
  | Polygon "'n list list list"
  | MultiPolygon "'n list list list list"
  | GeometryCollection "'n Geometry list"
  | OtherGeometry string

record 'n Feature =
  geometry :: "'n Geometry option"
  properties :: "(string \<times> string) list"

datatype 'n GeoJSON =
    FeatureCollection "'n Feature option list"
  | FeatureObject "'n Feature"
  | GeometryObject "'n Geometry"

section \<open>svgToGeojson.ts\<close>

record Element =
  attributes :: "(string \<times> string) list"

definition getAttribute :: "Element \<Rightarrow> string \<Rightarrow> string option" where
  "getAttribute e name = map_of (attributes e) name"

text \<open>Truthiness of \<open>string | null\<close>: neither \<open>null\<close> nor the empty string.\<close>

definition truthy :: "string option \<Rightarrow> bool" where
  "truthy v = (case v of None \<Rightarrow> False | Some s \<Rightarrow> s \<noteq> [])"

definition DEFAULT_SAMPLE_POINTS :: number where
  "DEFAULT_SAMPLE_POINTS = Fin 250"

definition parseLength :: "Runtime \<Rightarrow> string option \<Rightarrow> number option" where
  "parseLength rt v =
     (if \<not> truthy v then None
      else (let numeric = parseFloat rt (the v)
            in if numeric = NaN then None else Some numeric))"

text \<open>
  Inside this module every \<open>number[]\<close> coordinate is a two-component array: the path
  sampler returns points \<open>[x, y]\<close>, and both maps below build \<open>[x, y]\<close> arrays. Such
  an array is modelled by a pair; \<open>toPosition\<close> gives the GeoJSON position it stands for.
\<close>

type_synonym Coord = "number \<times> number"

definition toPosition :: "Coord \<Rightarrow> number list" where
  "toPosition c = [fst c, snd c]"

definition closeRing :: "Coord list \<Rightarrow> Coord list" where
  "closeRing coords =
     (case coords of
        [] \<Rightarrow> coords
      | first # _ \<Rightarrow>
          (let lst = last coords
           in if strictEq (fst first) (fst lst) \<and> strictEq (snd first) (snd lst) then coords
              else coords @ [first]))"

definition roundCoords :: "Runtime \<Rightarrow> Coord list \<Rightarrow> number option \<Rightarrow> Coord list" where
  "roundCoords rt coords precision =
     (case precision of
        None \<Rightarrow> coords
      | Some p \<Rightarrow>
          (let factor = pow10 rt p
           in map (\<lambda>(x, y). (divide rt (Math_round (times rt x factor)) factor,
                              divide rt (Math_round (times rt y factor)) factor)) coords))"

definition transformedCoords ::
  "Runtime \<Rightarrow> Coord list \<Rightarrow> bool \<Rightarrow> number option \<Rightarrow> Coord list" where
  "transformedCoords rt coords flipY svgHeight =
     map (\<lambda>(x, y). if flipY \<and> svgHeight \<noteq> None then (x, minus rt (the svgHeight) y)
                    else (x, y)) coords"

text \<open>\<open>/z\s*$/i.test(d)\<close>: dropping the trailing white space leaves a string that ends
  in \<open>z\<close> or \<open>Z\<close>.\<close>

definition closedPathTest :: "string \<Rightarrow> bool" where
  "closedPathTest d =
     (case dropWhile isSpace (rev d) of
        [] \<Rightarrow> False
      | c # _ \<Rightarrow> c = CHR ''z'' \<or> c = CHR ''Z'')"

definition entry :: "string \<Rightarrow> string option \<Rightarrow> (string \<times> string) list" where
  "entry key v = (if truthy v then [(key, the v)] else [])"

definition inferGeometry ::
  "Runtime \<Rightarrow> Coord list \<Rightarrow> Element \<Rightarrow> bool \<Rightarrow> number option \<Rightarrow> number option
   \<Rightarrow> number Feature" where
  "inferGeometry rt coords pathElement flipY svgHeight precision =
     (let identifier = getAttribute pathElement ''id'';
          fill = getAttribute pathElement ''fill'';
          stroke = getAttribute pathElement ''stroke'';
          strokeWidth = getAttribute pathElement ''stroke-width'';
          name = (case getAttribute pathElement ''inkscape:label'' of
                    Some l \<Rightarrow> Some l
                  | None \<Rightarrow> getAttribute pathElement ''data-name'');
          closedPath = closedPathTest (case getAttribute pathElement ''d'' of
                                         Some d \<Rightarrow> d | None \<Rightarrow> []);
          hasFill = (truthy fill \<and> fill \<noteq> Some ''none'');
          rounded = roundCoords rt (transformedCoords rt coords flipY svgHeight) precision;
          props = entry ''id'' identifier @ entry ''name'' name @ entry ''fill'' fill
                  @ entry ''stroke'' stroke @ entry ''strokeWidth'' strokeWidth
      in if closedPath \<or> hasFill
         then \<lparr>geometry = Some (Polygon [map toPosition (closeRing rounded)]),
               properties = props\<rparr>
         else \<lparr>geometry = Some (LineString (map toPosition rounded)), properties = props\<rparr>)"

subsection \<open>Removing clip paths and masks\<close>

definition lower :: "char \<Rightarrow> char" where
  "lower c = (if 65 \<le> (of_char c :: nat) \<and> (of_char c :: nat) \<le> 90
              then char_of ((of_char c :: nat) + 32) else c)"

text \<open>The string starts with the literal, letters compared without case (flag \<open>i\<close>).\<close>

definition ciPrefix :: "string \<Rightarrow> string \<Rightarrow> bool" where
  "ciPrefix pat s =
     (length pat \<le> length s \<and> map lower (take (length pat) s) = map lower pat)"

text \<open>What follows the first occurrence of the literal, if there is one.\<close>

fun afterFirst :: "string \<Rightarrow> string \<Rightarrow> string option" where
  "afterFirst pat [] = (if pat = [] then Some [] else None)"
| "afterFirst pat (c # cs) =
     (if ciPrefix pat (c # cs) then Some (drop (length pat) (c # cs))
      else afterFirst pat cs)"

text \<open>The three expressions of \<open>stripUnsupported\<close>, each of the shape
  \<open>/<tag[\s\S]*?<\/tag>/gi\<close>: a literal that opens the block, the shortest run of any
  characters, a literal that closes it.\<close>

datatype Block = ClipPathBlock | MaskBlock | DefsBlock

fun openTag :: "Block \<Rightarrow> string" where
  "openTag ClipPathBlock = ''<clipPath''"
| "openTag MaskBlock = ''<mask''"
| "openTag DefsBlock = ''<defs''"

fun closeTag :: "Block \<Rightarrow> string" where
  "closeTag ClipPathBlock = ''</clipPath>''"
| "closeTag MaskBlock = ''</mask>''"
| "closeTag DefsBlock = ''</defs>''"

text \<open>\<open>s.replace(re, f)\<close> with the flag \<open>g\<close>: scanning from the left, every match is
  replaced by \<open>f\<close> of the matched text, and the scan goes on after the match.\<close>

function replaceBlocks :: "Block \<Rightarrow> (string \<Rightarrow> string) \<Rightarrow> string \<Rightarrow> string" where
  "replaceBlocks b f [] = []"
| "replaceBlocks b f (c # cs) =
     (if ciPrefix (openTag b) (c # cs) then
        (case afterFirst (closeTag b) (drop (length (openTag b)) (c # cs)) of
           Some rest \<Rightarrow>
             f (take (length (c # cs) - length rest) (c # cs)) @ replaceBlocks b f rest
         | None \<Rightarrow> c # replaceBlocks b f cs)
      else c # replaceBlocks b f cs)"
  by pat_completeness auto
termination
proof -
  have shorter: "length r + length pat \<le> length s" if "afterFirst pat s = Some r"
    for pat s r
    using that by (induction s) (auto simp: ciPrefix_def split: if_splits)
  have nonempty: "0 < length (closeTag b)" for b
    by (cases b) simp_all
  show ?thesis
  proof (relation "measure (\<lambda>(b, f, s). length s)", simp_all)
    fix b c cs rest
    assume "afterFirst (closeTag b) (drop (length (openTag b)) (c # cs)) = Some rest"
    from shorter [OF this]
    have "length rest + length (closeTag b) \<le> Suc (length cs)" by simp
    with nonempty [of b] show "length rest < Suc (length cs)" by arith
  qed
qed

definition removeBlocks :: "Block \<Rightarrow> string \<Rightarrow> string" where
  "removeBlocks b s = replaceBlocks b (\<lambda>m. []) s"

definition stripUnsupported :: "string \<Rightarrow> string" where
  "stripUnsupported svgMarkup =
     replaceBlocks DefsBlock
       (\<lambda>m. removeBlocks MaskBlock (removeBlocks ClipPathBlock m))
       (removeBlocks MaskBlock (removeBlocks ClipPathBlock svgMarkup))"

subsection \<open>The conversion\<close>

record SvgToGeoJsonOptions =
  samplePoints :: "number option"
  translateX :: "number option"
  translateY :: "number option"
  scale :: "number option"
  flipY :: "bool option"
  precision :: "number option"

record Metadata =
  featureCount :: nat
  pathCount :: nat
  samplePointsUsed :: number

text \<open>\<open>collection\<close> holds the \<open>features\<close> of the returned \<open>FeatureCollection\<close>;
  \<open>samplePointsUsed\<close> is the metadata field \<open>samplePoints\<close>.\<close>

record SvgToGeoJsonResult =
  collection :: "number Feature list"
  metadata :: Metadata

text \<open>
  What a converter can throw. The first five are the errors the converters raise
  themselves on their input; \<open>TypeError\<close> is raised by the language when a property
  of \<open>null\<close> or \<open>undefined\<close> is read, when something that is not a function is called
  or when something that is not iterable is destructured; \<open>RendererError\<close> is whatever
  the renderer throws.
\<close>

datatype error =
    SvgInputEmpty
  | NoSvgElement
  | NoPathElements
  | GeoJsonInputEmpty
  | GeoJsonInvalid
  | TypeError
  | RendererError

definition isInputError :: "error \<Rightarrow> bool" where
  "isInputError e =
     (e = SvgInputEmpty \<or> e = NoSvgElement \<or> e = NoPathElements
      \<or> e = GeoJsonInputEmpty \<or> e = GeoJsonInvalid)"

text \<open>
  The document built by \<open>container.innerHTML = sanitized\<close>, as far as the converter reads
  it: the first \<open>svg\<close> element (\<open>querySelector\<close>) and the \<open>path\<close> elements in document
  order (\<open>querySelectorAll\<close>).
\<close>

record Document =
  svgElement :: "Element option"
  pathElements :: "Element list"

text \<open>
  The collaborators of the forward conversion, which are not part of this repository:
  the sanitizer \<open>pathologize\<close> (\<open>None\<close> when its promise is rejected), the browser's markup
  parser, and the path sampler \<open>pathToCoords\<close> (path, scale, numPoints, translateX,
  translateY).
\<close>

record Collaborators =
  pathologize :: "string \<Rightarrow> string option"
  parseMarkup :: "string \<Rightarrow> Document"
  pathToCoords :: "Element \<Rightarrow> number \<Rightarrow> number \<Rightarrow> number \<Rightarrow> number \<Rightarrow> Coord list"

text \<open>The \<open>try\<close>/\<open>catch\<close> block that assigns \<open>sanitized\<close>.\<close>

definition sanitized :: "Collaborators \<Rightarrow> string \<Rightarrow> string" where
  "sanitized env svgText =
     (case pathologize env svgText of
        Some s \<Rightarrow> s
      | None \<Rightarrow>
          (let cleaned = stripUnsupported svgText
           in if cleaned \<noteq> svgText then
                (case pathologize env cleaned of
                   Some s \<Rightarrow> s
                 | None \<Rightarrow> cleaned)
              else svgText))"

text \<open>The expression that initialises \<open>svgHeight\<close>; \<open>viewBoxHeight\<close> is its inner
  function.\<close>

definition viewBoxHeight :: "Runtime \<Rightarrow> Element \<Rightarrow> number option" where
  "viewBoxHeight rt svg =
     (let viewBox = getAttribute svg ''viewBox''
      in if \<not> truthy viewBox then None
         else (let parts = split_ws (trim (the viewBox))
               in if length parts \<noteq> 4 then None
                  else (let height = parseFloat rt (parts ! 3)
                        in if height = NaN then None else Some height)))"

definition svgHeight :: "Runtime \<Rightarrow> Element \<Rightarrow> number option" where
  "svgHeight rt svg =
     (case parseLength rt (getAttribute svg ''height'') of
        Some h \<Rightarrow> Some h
      | None \<Rightarrow> viewBoxHeight rt svg)"

definition orDefault :: "'a option \<Rightarrow> 'a \<Rightarrow> 'a" where
  "orDefault v d = (case v of None \<Rightarrow> d | Some x \<Rightarrow> x)"

text \<open>One round of \<open>paths.forEach\<close>: the feature is pushed unless the sampler returned
  no point.\<close>

definition pushFeature ::
  "Runtime \<Rightarrow> Collaborators \<Rightarrow> SvgToGeoJsonOptions \<Rightarrow> number option \<Rightarrow> Element
   \<Rightarrow> number Feature list \<Rightarrow> number Feature list" where
  "pushFeature rt env options height pathElement features =
     (let coords = pathToCoords env pathElement
                     (orDefault (scale options) (Fin 1))
                     (orDefault (samplePoints options) DEFAULT_SAMPLE_POINTS)
                     (orDefault (translateX options) (Fin 0))
                     (orDefault (translateY options) (Fin 0))
      in if length coords = 0 then features
         else features @ [inferGeometry rt coords pathElement
                            (orDefault (flipY options) True) height (precision options)])"

definition convertSvgToGeoJson ::
  "Runtime \<Rightarrow> Collaborators \<Rightarrow> string \<Rightarrow> SvgToGeoJsonOptions
   \<Rightarrow> error + SvgToGeoJsonResult" where
  "convertSvgToGeoJson rt env svgText options =
     (if trim svgText = [] then Inl SvgInputEmpty
      else
        (let doc = parseMarkup env (sanitized env svgText)
         in case svgElement doc of
              None \<Rightarrow> Inl NoSvgElement
            | Some svg \<Rightarrow>
                (let height = svgHeight rt svg;
                     paths = pathElements doc
                 in if length paths = 0 then Inl NoPathElements
                    else
                      (let features = fold (pushFeature rt env options height) paths []
                       in Inr \<lparr>collection = features,
                               metadata = \<lparr>featureCount = length features,
                                           pathCount = length paths,
                                           samplePointsUsed =
                                             orDefault (samplePoints options)
                                               DEFAULT_SAMPLE_POINTS\<rparr>\<rparr>))))"

section \<open>geojsonToSvg.ts\<close>

record MapExtent =
  extentLeft :: number
  extentBottom :: number
  extentRight :: number
  extentTop :: number

datatype FitTo = FitWidth | FitHeight

text \<open>The fields \<open>precision\<close> and \<open>fitTo\<close> of the options carry the suffix \<open>Option\<close>
  here, the field \<open>svg\<close> of the result is \<open>svgText\<close>.\<close>

record GeoJsonToSvgOptions =
  viewportWidth :: number
  viewportHeight :: number
  mapExtent :: "MapExtent option"
  precisionOption :: "number option"
  fitToOption :: "FitTo option"
  pointRadius :: "number option"
  mapExtentFromGeojson :: "bool option"

subsection \<open>The bounding box of GeoJSON that has the declared type\<close>

text \<open>
  \<open>flattenCoords\<close> and \<open>computeBoundingBox\<close> as they run on a value of the type
  \<open>GeoJSON\<close> declared for their argument, with finite numbers in the positions. A
  bounding box field is \<open>None\<close> where the code leaves it \<open>undefined\<close>: a position with
  fewer than two components was read.
\<close>

record BoundingBox =
  minX :: "real option"
  minY :: "real option"
  maxX :: "real option"
  maxY :: "real option"

definition push :: "'a \<Rightarrow> 'a list \<Rightarrow> 'a list" where
  "push x coll = coll @ [x]"

fun flattenCoords :: "'n Geometry \<Rightarrow> 'n list list \<Rightarrow> 'n list list" where
  "flattenCoords (Point c) coll = push c coll"
| "flattenCoords (MultiPoint cs) coll = fold push cs coll"
| "flattenCoords (LineString cs) coll = fold push cs coll"
| "flattenCoords (MultiLineString rings) coll =
     fold (\<lambda>ring. fold push ring) rings coll"
| "flattenCoords (Polygon rings) coll =
     fold (\<lambda>ring. fold push ring) rings coll"
| "flattenCoords (MultiPolygon polys) coll =
     fold (\<lambda>poly. fold (\<lambda>ring. fold push ring) poly) polys coll"
| "flattenCoords (GeometryCollection geometries) coll =
     fold (\<lambda>geom. flattenCoords geom) geometries coll"
| "flattenCoords (OtherGeometry t) coll = coll"

definition collect :: "'n Feature option \<Rightarrow> 'n list list \<Rightarrow> 'n list list" where
  "collect feature coords =
     (case feature of
        None \<Rightarrow> coords
      | Some f \<Rightarrow>
          (case geometry f of
             None \<Rightarrow> coords
           | Some g \<Rightarrow> flattenCoords g coords))"

definition gatherCoords :: "'n GeoJSON \<Rightarrow> 'n list list" where
  "gatherCoords geojson =
     (case geojson of
        FeatureCollection features \<Rightarrow> fold collect features []
      | FeatureObject f \<Rightarrow> collect (Some f) []
      | GeometryObject g \<Rightarrow> flattenCoords g [])"

text \<open>\<open>a < b\<close> on values that may be \<open>undefined\<close>: false as soon as one of them is.\<close>

definition jsLess :: "real option \<Rightarrow> real option \<Rightarrow> bool" where
  "jsLess a b = (case (a, b) of (Some u, Some v) \<Rightarrow> u < v | _ \<Rightarrow> False)"

definition includeCoord :: "real list \<Rightarrow> BoundingBox \<Rightarrow> BoundingBox" where
  "includeCoord c b =
     (let x = item c 0; y = item c 1
      in \<lparr>minX = (if jsLess x (minX b) then x else minX b),
          minY = (if jsLess y (minY b) then y else minY b),
          maxX = (if jsLess (maxX b) x then x else maxX b),
          maxY = (if jsLess (maxY b) y then y else maxY b)\<rparr>)"

definition computeBoundingBox :: "real GeoJSON \<Rightarrow> BoundingBox option" where
  "computeBoundingBox geojson =
     (let coords = gatherCoords geojson
      in case coords of
           [] \<Rightarrow> None
         | c0 # _ \<Rightarrow>
             Some (fold includeCoord coords
                     \<lparr>minX = item c0 0, minY = item c0 1,
                      maxX = item c0 0, maxY = item c0 1\<rparr>))"

subsection \<open>The bounding box of whatever \<open>JSON.parse\<close> returns\<close>

text \<open>
  The cast \<open>JSON.parse(geojsonText) as GeoJSON\<close> checks nothing, so the same two functions
  also run on values that do not have the declared type. Here they are on the values of
  the language: what \<open>JSON.parse\<close> can return, and \<open>undefined\<close>, which reading a missing
  property gives. The keys of an object are distinct.
\<close>

datatype jsval =
    Undefined
  | Null
  | Bool bool
  | Num number
  | Str string
  | Arr "jsval list"
  | Obj "(string \<times> jsval) list"

definition field :: "(string \<times> jsval) list \<Rightarrow> string \<Rightarrow> jsval" where
  "field fs k = (case map_of fs k of Some v \<Rightarrow> v | None \<Rightarrow> Undefined)"

text \<open>\<open>v.k\<close> for the names the converter reads (\<open>type\<close>, \<open>coordinates\<close>, \<open>geometries\<close>,
  \<open>features\<close>, \<open>geometry\<close>): no prototype has a property of such a name.\<close>

fun property :: "jsval \<Rightarrow> string \<Rightarrow> error + jsval" where
  "property Undefined k = Inl TypeError"
| "property Null k = Inl TypeError"
| "property (Obj fs) k = Inr (field fs k)"
| "property v k = Inr Undefined"

definition bindE :: "error + 'a \<Rightarrow> ('a \<Rightarrow> error + 'b) \<Rightarrow> error + 'b" where
  "bindE r f = (case r of Inl e \<Rightarrow> Inl e | Inr x \<Rightarrow> f x)"

fun foldE :: "('a \<Rightarrow> 's \<Rightarrow> error + 's) \<Rightarrow> 'a list \<Rightarrow> 's \<Rightarrow> error + 's" where
  "foldE f [] s = Inr s"
| "foldE f (x # xs) s = bindE (f x s) (foldE f xs)"

text \<open>\<open>ring.forEach(coord => collection.push(coord))\<close>: only an array has \<open>forEach\<close>.\<close>

definition pushAll :: "jsval \<Rightarrow> jsval list \<Rightarrow> error + jsval list" where
  "pushAll ring coll = (case ring of Arr cs \<Rightarrow> Inr (coll @ cs) | _ \<Rightarrow> Inl TypeError)"

definition pushRings :: "jsval \<Rightarrow> jsval list \<Rightarrow> error + jsval list" where
  "pushRings poly coll = (case poly of Arr rings \<Rightarrow> foldE pushAll rings coll | _ \<Rightarrow> Inl TypeError)"

definition pushPolys :: "jsval \<Rightarrow> jsval list \<Rightarrow> error + jsval list" where
  "pushPolys multi coll =
     (case multi of Arr polys \<Rightarrow> foldE pushRings polys coll | _ \<Rightarrow> Inl TypeError)"

function flattenCoordsValue :: "jsval \<Rightarrow> jsval list \<Rightarrow> error + jsval list"
  and flattenEach :: "jsval list \<Rightarrow> jsval list \<Rightarrow> error + jsval list" where
  "flattenCoordsValue Undefined coll = Inl TypeError"
| "flattenCoordsValue Null coll = Inl TypeError"
| "flattenCoordsValue (Bool b) coll = Inr coll"
| "flattenCoordsValue (Num n) coll = Inr coll"
| "flattenCoordsValue (Str s) coll = Inr coll"
| "flattenCoordsValue (Arr xs) coll = Inr coll"
| "flattenCoordsValue (Obj fs) coll =
     (if field fs ''type'' = Str ''Point'' then Inr (coll @ [field fs ''coordinates''])
      else if field fs ''type'' = Str ''MultiPoint'' \<or> field fs ''type'' = Str ''LineString''
        then pushAll (field fs ''coordinates'') coll
      else if field fs ''type'' = Str ''MultiLineString'' \<or> field fs ''type'' = Str ''Polygon''
        then pushRings (field fs ''coordinates'') coll
      else if field fs ''type'' = Str ''MultiPolygon''
        then pushPolys (field fs ''coordinates'') coll
      else if field fs ''type'' = Str ''GeometryCollection''
        then (case field fs ''geometries'' of
                Arr geometries \<Rightarrow> flattenEach geometries coll
              | _ \<Rightarrow> Inl TypeError)
      else Inr coll)"
| "flattenEach [] coll = Inr coll"
| "flattenEach (geom # rest) coll =
     (case flattenCoordsValue geom coll of
        Inl e \<Rightarrow> Inl e
      | Inr coll' \<Rightarrow> flattenEach rest coll')"
  by pat_completeness auto
termination
proof -
  have inside: "size v < size (Obj fs)" if "map_of fs k = Some v" for fs k and v :: jsval
  proof -
    from that have "(k, v) \<in> set fs" by (rule map_of_SomeD)
    then show ?thesis by (induction fs) auto
  qed
  show ?thesis
  proof (relation "measure (\<lambda>a. case a of Inl (g, c) \<Rightarrow> 2 * size g
                                       | Inr (gs, c) \<Rightarrow> 2 * size_list size gs + 1)",
      goal_cases)
    case 1
    show ?case by simp
  next
    case (2 fs coll gs)
    then have "map_of fs ''geometries'' = Some (Arr gs)"
      by (auto simp: field_def split: option.splits)
    from inside [OF this] show ?case by simp
  next
    case 3
    show ?case by simp
  next
    case 4
    show ?case by simp
  qed
qed

text \<open>Truthiness of a value: \<open>undefined\<close>, \<open>null\<close>, \<open>false\<close>, zero, \<open>NaN\<close> and the empty
  string are falsy.\<close>

fun truthyValue :: "jsval \<Rightarrow> bool" where
  "truthyValue Undefined = False"
| "truthyValue Null = False"
| "truthyValue (Bool b) = b"
| "truthyValue (Num n) = (n \<noteq> Fin 0 \<and> n \<noteq> NaN)"
| "truthyValue (Str s) = (s \<noteq> [])"
| "truthyValue v = True"

definition collectValue :: "jsval \<Rightarrow> jsval list \<Rightarrow> error + jsval list" where
  "collectValue feature coords =
     (if \<not> truthyValue feature then Inr coords
      else bindE (property feature ''geometry'')
             (\<lambda>g. if \<not> truthyValue g then Inr coords else flattenCoordsValue g coords))"

definition gatherValues :: "jsval \<Rightarrow> error + jsval list" where
  "gatherValues geojson =
     bindE (property geojson ''type'')
       (\<lambda>t. if t = Str ''FeatureCollection'' then
               bindE (property geojson ''features'')
                 (\<lambda>features. case features of
                                 Arr fs \<Rightarrow> foldE collectValue fs []
                               | _ \<Rightarrow> Inl TypeError)
             else if t = Str ''Feature'' then collectValue geojson []
             else flattenCoordsValue geojson [])"

text \<open>\<open>v[i]\<close> for \<open>i\<close> 0 or 1: an element of an array, a character of a string, the
  property \<open>"0"\<close> or \<open>"1"\<close> of an object.\<close>

fun index :: "jsval \<Rightarrow> nat \<Rightarrow> error + jsval" where
  "index Undefined i = Inl TypeError"
| "index Null i = Inl TypeError"
| "index (Arr xs) i = Inr (case item xs i of Some v \<Rightarrow> v | None \<Rightarrow> Undefined)"
| "index (Str s) i = Inr (case item s i of Some c \<Rightarrow> Str [c] | None \<Rightarrow> Undefined)"
| "index (Obj fs) i = Inr (field fs (if i = 0 then ''0'' else ''1''))"
| "index v i = Inr Undefined"

text \<open>The parameter pattern \<open>[x, y]\<close>: the first two values an array or a string
  iterates over; nothing else that \<open>JSON.parse\<close> returns is iterable.\<close>

fun firstTwo :: "jsval \<Rightarrow> error + (jsval \<times> jsval)" where
  "firstTwo (Arr xs) =
     Inr (case item xs 0 of Some v \<Rightarrow> v | None \<Rightarrow> Undefined,
          case item xs 1 of Some v \<Rightarrow> v | None \<Rightarrow> Undefined)"
| "firstTwo (Str s) =
     Inr (case item s 0 of Some c \<Rightarrow> Str [c] | None \<Rightarrow> Undefined,
          case item s 1 of Some c \<Rightarrow> Str [c] | None \<Rightarrow> Undefined)"
| "firstTwo v = Inl TypeError"

text \<open>
  \<open>a < b\<close>. Numbers are compared as numbers, with \<open>undefined\<close> read as \<open>NaN\<close>, \<open>null\<close>
  as zero and a boolean as zero or one. When a string, an array or an object is involved
  the language converts it to a primitive first and compares the results, which cannot
  throw on a value that \<open>JSON.parse\<close> returns; that comparison is the parameter
  \<open>coerce\<close>.
\<close>

fun numberLess :: "number \<Rightarrow> number \<Rightarrow> bool" where
  "numberLess NaN b = False"
| "numberLess a NaN = False"
| "numberLess (Fin x) (Fin y) = (x < y)"
| "numberLess a NegInf = False"
| "numberLess NegInf b = True"
| "numberLess PosInf b = False"
| "numberLess a PosInf = True"

fun asNumber :: "jsval \<Rightarrow> number option" where
  "asNumber (Num n) = Some n"
| "asNumber Undefined = Some NaN"
| "asNumber Null = Some (Fin 0)"
| "asNumber (Bool b) = Some (Fin (if b then 1 else 0))"
| "asNumber v = None"

definition lessThan :: "(jsval \<Rightarrow> jsval \<Rightarrow> bool) \<Rightarrow> jsval \<Rightarrow> jsval \<Rightarrow> bool" where
  "lessThan coerce a b =
     (case (asNumber a, asNumber b) of
        (Some m, Some n) \<Rightarrow> numberLess m n
      | _ \<Rightarrow> coerce a b)"

record BoxValue =
  minXValue :: jsval
  minYValue :: jsval
  maxXValue :: jsval
  maxYValue :: jsval

definition includeValue ::
  "(jsval \<Rightarrow> jsval \<Rightarrow> bool) \<Rightarrow> jsval \<Rightarrow> BoxValue \<Rightarrow> error + BoxValue" where
  "includeValue coerce coord b =
     bindE (firstTwo coord) (\<lambda>(x, y).
       Inr \<lparr>minXValue = (if lessThan coerce x (minXValue b) then x else minXValue b),
            minYValue = (if lessThan coerce y (minYValue b) then y else minYValue b),
            maxXValue = (if lessThan coerce (maxXValue b) x then x else maxXValue b),
            maxYValue = (if lessThan coerce (maxYValue b) y then y else maxYValue b)\<rparr>)"

definition computeBoundingBoxValue ::
  "(jsval \<Rightarrow> jsval \<Rightarrow> bool) \<Rightarrow> jsval \<Rightarrow> error + BoxValue option" where
  "computeBoundingBoxValue coerce geojson =
     bindE (gatherValues geojson) (\<lambda>coords.
       case coords of
         [] \<Rightarrow> Inr None
       | c0 # _ \<Rightarrow>
           bindE (index c0 0) (\<lambda>x0.
           bindE (index c0 1) (\<lambda>y0.
           bindE (foldE (includeValue coerce) coords
                    \<lparr>minXValue = x0, minYValue = y0, maxXValue = x0, maxYValue = y0\<rparr>)
             (\<lambda>b. Inr (Some b)))))"

subsection \<open>The conversion\<close>

text \<open>The field \<open>r\<close> of the renderer's configuration is \<open>radius\<close> here.\<close>

record RendererConfig =
  viewportSize :: "number \<times> number"
  configMapExtent :: "MapExtent option"
  configMapExtentFromGeojson :: "bool option"
  configPrecision :: "number option"
  configFitTo :: "FitTo option"
  pointAsCircle :: bool
  radius :: "number option"

record GeoJsonToSvgResult =
  svgText :: string
  elementCount :: nat
  bbox :: "BoxValue option"

text \<open>
  The collaborators of the reverse conversion: \<open>JSON.parse\<close> (\<open>None\<close> when it throws), the
  renderer \<open>new GeoJSON2SVG(config).convert\<close> (\<open>None\<close> when it throws), the conversion of a
  number to text in a template literal, and the comparison \<open>coerce\<close> of \<open>lessThan\<close>.
\<close>

record ReverseCollaborators =
  jsonParse :: "string \<Rightarrow> jsval option"
  convert :: "RendererConfig \<Rightarrow> jsval \<Rightarrow> string list option"
  numberToString :: "number \<Rightarrow> string"
  coerceLess :: "jsval \<Rightarrow> jsval \<Rightarrow> bool"

definition buildSvgWrapper ::
  "Runtime \<Rightarrow> (number \<Rightarrow> string) \<Rightarrow> string list \<Rightarrow> number \<Rightarrow> number \<Rightarrow> MapExtent option
   \<Rightarrow> string" where
  \<open>buildSvgWrapper rt str elements width height extent =
     (let viewBox =
            (case extent of
               Some e \<Rightarrow> str (extentLeft e) @ '' '' @ str (extentBottom e) @ '' ''
                         @ str (minus rt (extentRight e) (extentLeft e)) @ '' ''
                         @ str (minus rt (extentTop e) (extentBottom e))
             | None \<Rightarrow> ''0 0 '' @ str width @ '' '' @ str height)
      in concat ([''<svg xmlns="http://www.w3.org/2000/svg" width="'' @ str width
                  @ ''" height="'' @ str height @ ''" viewBox="'' @ viewBox @ ''">'']
                 @ elements @ [''</svg>'']))\<close>

definition convertGeoJsonToSvg ::
  "Runtime \<Rightarrow> ReverseCollaborators \<Rightarrow> string \<Rightarrow> GeoJsonToSvgOptions
   \<Rightarrow> error + GeoJsonToSvgResult" where
  "convertGeoJsonToSvg rt env geojsonText options =
     (if trim geojsonText = [] then Inl GeoJsonInputEmpty
      else
        (case jsonParse env geojsonText of
           None \<Rightarrow> Inl GeoJsonInvalid
         | Some parsed \<Rightarrow>
             (case convert env
                     \<lparr>viewportSize = (viewportWidth options, viewportHeight options),
                      configMapExtent = mapExtent options,
                      configMapExtentFromGeojson = mapExtentFromGeojson options,
                      configPrecision = precisionOption options,
                      configFitTo = fitToOption options,
                      pointAsCircle = True,
                      radius = pointRadius options\<rparr>
                     parsed of
                None \<Rightarrow> Inl RendererError
              | Some svgElements \<Rightarrow>
                  (let svg = buildSvgWrapper rt (numberToString env) svgElements
                               (viewportWidth options) (viewportHeight options)
                               (mapExtent options)
                   in bindE (computeBoundingBoxValue (coerceLess env) parsed)
                        (\<lambda>box. Inr \<lparr>svgText = svg, elementCount = length svgElements,
                                     bbox = box\<rparr>)))))"

section \<open>Notions used to state the properties\<close>

text \<open>The drawing instruction of a path element, empty when the attribute is missing.\<close>

definition pathData :: "Element \<Rightarrow> string" where
  "pathData e = (case getAttribute e ''d'' of Some d \<Rightarrow> d | None \<Rightarrow> [])"

text \<open>The drawing instruction ends in \<open>z\<close> or \<open>Z\<close>, followed by white space only.\<close>

definition endsWithClosePath :: "string \<Rightarrow> bool" where
  "endsWithClosePath d =
     (\<exists>pre c sp. d = pre @ c # sp \<and> (c = CHR ''z'' \<or> c = CHR ''Z'')
        \<and> (\<forall>ch \<in> set sp. isSpace ch))"

text \<open>The element has a \<open>fill\<close> attribute that is present, in the sense the specification
  gives to the word for an attribute (neither missing nor empty), and is not \<open>none\<close>.\<close>

definition paintsFill :: "Element \<Rightarrow> bool" where
  "paintsFill e = (\<exists>f. getAttribute e ''fill'' = Some f \<and> f \<noteq> [] \<and> f \<noteq> ''none'')"

text \<open>The coordinates of a feature built by \<open>inferGeometry\<close>: the single ring of its
  polygon, or the positions of its line.\<close>

definition outputCoords :: "number Feature \<Rightarrow> number list list" where
  "outputCoords f =
     (case geometry f of
        Some (Polygon [ring]) \<Rightarrow> ring
      | Some (LineString cs) \<Rightarrow> cs
      | _ \<Rightarrow> [])"

text \<open>What the map of \<open>transformedCoords\<close> does to one point, and what \<open>roundCoords\<close>
  does to one point.\<close>

definition flipped :: "Runtime \<Rightarrow> bool \<Rightarrow> number option \<Rightarrow> Coord \<Rightarrow> Coord" where
  "flipped rt fy h c =
     (case h of Some H \<Rightarrow> if fy then (fst c, minus rt H (snd c)) else c | None \<Rightarrow> c)"

definition roundOne :: "Runtime \<Rightarrow> Coord \<Rightarrow> number option \<Rightarrow> Coord" where
  "roundOne rt c p = hd (roundCoords rt [c] p)"

text \<open>Two points are the same for \<open>closeRing\<close>: both components are \<open>===\<close>.\<close>

definition sameCoord :: "Coord \<Rightarrow> Coord \<Rightarrow> bool" where
  "sameCoord a b = (strictEq (fst a) (fst b) \<and> strictEq (snd a) (snd b))"

text \<open>The integer nearest to a real with a tie going away from zero, and rounding to
  \<open>p\<close> decimals in this way, as the specification words it; kept apart from
  \<open>Math_round\<close>, which is what the code calls.\<close>

definition halfAwayFromZero :: "real \<Rightarrow> real" where
  "halfAwayFromZero t = sgn t * of_int \<lfloor>\<bar>t\<bar> + 1 / 2\<rfloor>"

definition roundHalfAwayFromZero :: "real \<Rightarrow> int \<Rightarrow> real" where
  "roundHalfAwayFromZero v p = halfAwayFromZero (v * power_int 10 p) / power_int 10 p"

text \<open>The reference height as the specification words it: the height attribute, otherwise
  the third of the four components of the view box.\<close>

definition svgHeightThirdComponent :: "Runtime \<Rightarrow> Element \<Rightarrow> number option" where
  "svgHeightThirdComponent rt svg =
     (case parseLength rt (getAttribute svg ''height'') of
        Some h \<Rightarrow> Some h
      | None \<Rightarrow>
          (case getAttribute svg ''viewBox'' of
             None \<Rightarrow> None
           | Some vb \<Rightarrow>
               (let parts = split_ws (trim vb)
                in if length parts = 4 \<and> parseFloat rt (parts ! 2) \<noteq> NaN
                   then Some (parseFloat rt (parts ! 2)) else None)))"

text \<open>The points the sampler returns for a path element under the given options.\<close>

definition sample :: "Collaborators \<Rightarrow> SvgToGeoJsonOptions \<Rightarrow> Element \<Rightarrow> Coord list" where
  "sample env options pathElement =
     pathToCoords env pathElement
       (orDefault (scale options) (Fin 1))
       (orDefault (samplePoints options) DEFAULT_SAMPLE_POINTS)
       (orDefault (translateX options) (Fin 0))
       (orDefault (translateY options) (Fin 0))"

text \<open>The positions of a geometry, of a feature and of a GeoJSON object, listed in order.\<close>

fun positions :: "'n Geometry \<Rightarrow> 'n list list" where
  "positions (Point c) = [c]"
| "positions (MultiPoint cs) = cs"
| "positions (LineString cs) = cs"
| "positions (MultiLineString rings) = concat rings"
| "positions (Polygon rings) = concat rings"
| "positions (MultiPolygon polys) = concat (map concat polys)"
| "positions (GeometryCollection geometries) = concat (map positions geometries)"
| "positions (OtherGeometry t) = []"

definition featurePositions :: "'n Feature option \<Rightarrow> 'n list list" where
  "featurePositions feature =
     (case feature of
        None \<Rightarrow> []
      | Some f \<Rightarrow> (case geometry f of None \<Rightarrow> [] | Some g \<Rightarrow> positions g))"

fun allPositions :: "'n GeoJSON \<Rightarrow> 'n list list" where
  "allPositions (FeatureCollection features) = concat (map featurePositions features)"
| "allPositions (FeatureObject f) = featurePositions (Some f)"
| "allPositions (GeometryObject g) = positions g"

subsection \<open>Typed GeoJSON as values of the language\<close>











subsection \<open>Example inputs\<close>

text \<open>A runtime without rounding error. It agrees with binary64 wherever the exact
  result is a double, as it is in every example below.\<close>

definition ideal :: Runtime where
  "ideal = \<lparr>toDouble = Fin,
            pow10 = (\<lambda>p. case p of Fin r \<Rightarrow> Fin (10 powr r) | PosInf \<Rightarrow> PosInf
                          | NegInf \<Rightarrow> Fin 0 | NaN \<Rightarrow> NaN)\<rparr>"

definition triangle :: "Coord list" where
  "triangle = [(Fin 0, Fin 0), (Fin 10, Fin 0), (Fin 10, Fin 10)]"

definition filledPath :: Element where
  "filledPath = \<lparr>attributes = [(''d'', ''M0 0 L10 0 L10 10 Z''), (''fill'', ''red'')]\<rparr>"

definition strokedPath :: Element where
  "strokedPath = \<lparr>attributes = [(''d'', ''M0 0 L10 0 L10 10''), (''stroke'', ''black'')]\<rparr>"

definition emptyPath :: Element where
  "emptyPath = \<lparr>attributes = [(''d'', [])]\<rparr>"

definition viewBoxRoot :: Element where
  "viewBoxRoot = \<lparr>attributes = [(''viewBox'', ''0 0 200 100'')]\<rparr>"

definition heightRoot :: Element where
  "heightRoot = \<lparr>attributes = [(''height'', ''100''), (''viewBox'', ''0 0 200 50'')]\<rparr>"

definition infiniteRoot :: Element where
  "infiniteRoot = \<lparr>attributes = [(''height'', ''Infinity''), (''viewBox'', ''0 0 200 50'')]\<rparr>"

definition bareRoot :: Element where
  "bareRoot = \<lparr>attributes = [(''viewBox'', ''0 0 200'')]\<rparr>"



definition noOptions :: SvgToGeoJsonOptions where
  "noOptions = \<lparr>samplePoints = None, translateX = None, translateY = None, scale = None,
                 flipY = None, precision = None\<rparr>"

text \<open>A sanitizer that rejects every input, a parser that finds a root with a height and
  three paths, and a sampler that returns no point for a path without drawing
  instruction.\<close>

definition rejecting :: Collaborators where
  "rejecting =
     \<lparr>pathologize = (\<lambda>s. None),
      parseMarkup = (\<lambda>s. \<lparr>svgElement = Some heightRoot,
                             pathElements = [filledPath, emptyPath, strokedPath]\<rparr>),
      pathToCoords = (\<lambda>pe sc n tx ty. if pathData pe = [] then [] else triangle)\<rparr>"

text \<open>A parser that rejects every text and a renderer that throws.\<close>

definition noJson :: ReverseCollaborators where
  "noJson =
     \<lparr>jsonParse = (\<lambda>s. None), convert = (\<lambda>cfg g. None), numberToString = (\<lambda>n. []),
      coerceLess = (\<lambda>a b. False)\<rparr>"

definition anyGeoOptions :: GeoJsonToSvgOptions where
  "anyGeoOptions =
     \<lparr>viewportWidth = Fin 800, viewportHeight = Fin 600, mapExtent = None,
      precisionOption = None, fitToOption = None, pointRadius = None,
      mapExtentFromGeojson = None\<rparr>"

definition mixedGeometry :: "real GeoJSON" where
  "mixedGeometry =
     GeometryObject (GeometryCollection
       [Point [3, 4], OtherGeometry ''Circle'',
        GeometryCollection [LineString [[1, 7], [5, 2]]]])"


subsection \<open>Notions about the text passes\<close>

text \<open>No occurrence of the literal starts inside the piece \<open>t\<close>, whatever follows it.\<close>

definition inertFor :: "string \<Rightarrow> string \<Rightarrow> bool" where
  "inertFor pat t = (\<forall>x k. k < length t \<longrightarrow> \<not> ciPrefix pat (drop k t @ x))"


section \<open>Auxiliary facts\<close>

subsection \<open>Strings\<close>

lemma trim_Nil_iff: "trim s = [] \<longleftrightarrow> (\<forall>c \<in> set s. isSpace c)"
proof -
  have "dropWhile isSpace s = [] \<longleftrightarrow> (\<forall>c \<in> set s. isSpace c)"
    by (simp add: dropWhile_eq_Nil_conv)
  moreover have "dropWhile isSpace (rev (dropWhile isSpace s)) = [] \<longleftrightarrow> dropWhile isSpace s = []"
  proof
    assume a: "dropWhile isSpace (rev (dropWhile isSpace s)) = []"
    show "dropWhile isSpace s = []"
    proof (rule ccontr)
      assume ne: "dropWhile isSpace s \<noteq> []"
      then have "\<not> isSpace (hd (dropWhile isSpace s))" by (rule hd_dropWhile)
      moreover have "hd (dropWhile isSpace s) \<in> set (rev (dropWhile isSpace s))"
        using ne by simp
      ultimately show False using a by (auto simp: dropWhile_eq_Nil_conv)
    qed
  qed (auto dest: set_dropWhileD)
  ultimately show ?thesis by (simp add: trim_def)
qed

lemma split_ws_trim_Nil: "split_ws (trim []) = [[]]"
  by (simp add: split_ws_def trim_def)

lemma closedPathTest_iff: "closedPathTest d \<longleftrightarrow> endsWithClosePath d"
proof
  assume "closedPathTest d"
  then obtain c rest where dw: "dropWhile isSpace (rev d) = c # rest"
    and c: "c = CHR ''z'' \<or> c = CHR ''Z''"
    by (auto simp: closedPathTest_def split: list.splits)
  have "rev d = takeWhile isSpace (rev d) @ c # rest"
    using dw takeWhile_dropWhile_id [of isSpace "rev d"] by simp
  then have "d = rev rest @ c # rev (takeWhile isSpace (rev d))"
    by (metis rev_append rev.simps(2) rev_rev_ident append.assoc append_Cons append_Nil)
  moreover have "\<forall>ch \<in> set (rev (takeWhile isSpace (rev d))). isSpace ch"
    by (auto dest: set_takeWhileD)
  ultimately show "endsWithClosePath d"
    unfolding endsWithClosePath_def using c by blast
next
  assume "endsWithClosePath d"
  then obtain pre c sp where d: "d = pre @ c # sp"
    and c: "c = CHR ''z'' \<or> c = CHR ''Z''" and sp: "\<forall>ch \<in> set sp. isSpace ch"
    unfolding endsWithClosePath_def by blast
  have nc: "\<not> isSpace c" using c by (auto simp: isSpace_def)
  have "rev d = rev sp @ (c # rev pre)"
    unfolding d by simp
  moreover have "dropWhile isSpace (rev sp @ (c # rev pre)) = dropWhile isSpace (c # rev pre)"
    using sp by (intro dropWhile_append2) simp
  ultimately have "dropWhile isSpace (rev d) = c # rev pre"
    using nc by simp
  then show "closedPathTest d"
    using c by (simp add: closedPathTest_def)
qed

lemma split_ws_viewBox: "split_ws (trim ''0 0 200 100'') = [''0'', ''0'', ''200'', ''100'']"
  by (simp add: split_ws_def trim_def isSpace_def)

lemma split_ws_short: "split_ws (trim ''0 0 200'') = [''0'', ''0'', ''200'']"
  by (simp add: split_ws_def trim_def isSpace_def)

lemma parseFloat_100: "parseFloat ideal ''100'' = Fin 100"
  by (simp add: parseFloat_def takeSign_def isSpace_def isDigit_def digitsValue_def
        exponentPart_def ideal_def)

lemma parseFloat_200: "parseFloat ideal ''200'' = Fin 200"
  by (simp add: parseFloat_def takeSign_def isSpace_def isDigit_def digitsValue_def
        exponentPart_def ideal_def)

lemma parseFloat_Infinity: "parseFloat rt ''Infinity'' = PosInf"
  by (simp add: parseFloat_def takeSign_def isSpace_def infinity_def)

subsection \<open>The text passes\<close>







lemma inertFor_Nil: "inertFor L []"
  by (simp add: inertFor_def)
























subsection \<open>Rounding\<close>

lemma Math_round_bounds:
  "\<exists>k::int. Math_round (Fin t) = Fin (of_int k) \<and> t - 1 / 2 < of_int k \<and> of_int k \<le> t + 1 / 2"
proof -
  have "of_int \<lfloor>t + 1 / 2\<rfloor> \<le> t + 1 / 2" by linarith
  moreover have "t + 1 / 2 < of_int \<lfloor>t + 1 / 2\<rfloor> + 1" by linarith
  ultimately have "t - 1 / 2 < of_int \<lfloor>t + 1 / 2\<rfloor> \<and> of_int \<lfloor>t + 1 / 2\<rfloor> \<le> t + 1 / 2"
    by linarith
  then show ?thesis by (intro exI [of _ "\<lfloor>t + 1 / 2\<rfloor>"]) simp
qed

lemma Math_round_nonneg:
  assumes "0 \<le> t"
  shows "Math_round (Fin t) = Fin (halfAwayFromZero t)"
proof (cases "t = 0")
  case True
  then show ?thesis by (simp add: halfAwayFromZero_def)
next
  case False
  with assms have "0 < t" by simp
  then show ?thesis by (simp add: halfAwayFromZero_def)
qed

lemma Math_round_neg:
  assumes "t < 0"
  shows "Math_round (Fin t)
           = Fin (halfAwayFromZero t + (if t + 1 / 2 \<in> \<int> then 1 else 0))"
proof -
  define u where "u = - t - 1 / 2"
  have X: "t + 1 / 2 = - u" "\<bar>t\<bar> + 1 / 2 = u + 1" using assms by (simp_all add: u_def)
  have uZ: "t + 1 / 2 \<in> \<int> \<longleftrightarrow> u \<in> \<int>" unfolding X by simp
  have "\<lfloor>- u\<rfloor> = - \<lceil>u\<rceil>" by (simp add: ceiling_def)
  moreover have "\<lceil>u\<rceil> = (if u \<in> \<int> then \<lfloor>u\<rfloor> else \<lfloor>u\<rfloor> + 1)"
    by (auto simp: ceiling_altdef Ints_def)
  moreover have "\<lfloor>u + 1\<rfloor> = \<lfloor>u\<rfloor> + 1" by simp
  ultimately show ?thesis
    using assms unfolding halfAwayFromZero_def Math_round.simps X uZ by simp
qed

lemma Math_round_away:
  assumes "0 \<le> t \<or> t + 1 / 2 \<notin> \<int>"
  shows "Math_round (Fin t) = Fin (halfAwayFromZero t)"
proof (cases "0 \<le> t")
  case True
  then show ?thesis by (rule Math_round_nonneg)
next
  case False
  then have "t < 0" by simp
  from Math_round_neg [OF this] assms False show ?thesis by simp
qed

lemma Math_round_tie:
  assumes "t < 0" and "t + 1 / 2 \<in> \<int>"
  shows "Math_round (Fin t) = Fin (halfAwayFromZero t + 1)"
  using Math_round_neg [OF assms(1)] assms(2) by simp

lemma roundCoords_map: "roundCoords rt cs p = map (\<lambda>c. roundOne rt c p) cs"
  by (cases p) (auto simp: roundCoords_def roundOne_def Let_def)

lemma roundOne_None: "roundOne rt c None = c"
  by (simp add: roundOne_def roundCoords_def)

lemma roundOne_Some:
  "roundOne rt (x, y) (Some p) =
     (divide rt (Math_round (times rt x (pow10 rt p))) (pow10 rt p),
      divide rt (Math_round (times rt y (pow10 rt p))) (pow10 rt p))"
  by (simp add: roundOne_def roundCoords_def Let_def)

lemma length_roundCoords: "length (roundCoords rt cs p) = length cs"
  by (cases p) (simp_all add: roundCoords_def Let_def)

subsection \<open>The feature of one path\<close>

lemma transformedCoords_map: "transformedCoords rt cs fy h = map (flipped rt fy h) cs"
  by (cases h)
     (auto simp: transformedCoords_def flipped_def split_beta intro: map_idI [symmetric])

lemma length_transformedCoords: "length (transformedCoords rt cs fy h) = length cs"
  by (simp add: transformedCoords_def)

lemma closeRing_cases:
  "cs \<noteq> [] \<Longrightarrow> closeRing cs = (if sameCoord (hd cs) (last cs) then cs else cs @ [hd cs])"
  by (cases cs) (auto simp: closeRing_def Let_def sameCoord_def)

lemma sameCoord_eq: "sameCoord a b \<Longrightarrow> a = b"
  by (simp add: sameCoord_def strictEq_def prod_eq_iff)

lemma sameCoord_iff: "fst a \<noteq> NaN \<Longrightarrow> snd a \<noteq> NaN \<Longrightarrow> sameCoord a b \<longleftrightarrow> a = b"
  by (auto simp: sameCoord_def strictEq_def prod_eq_iff)

lemma toPosition_inj: "toPosition a = toPosition b \<longleftrightarrow> a = b"
  by (auto simp: toPosition_def prod_eq_iff)

lemma hasFill_iff:
  "(truthy (getAttribute e ''fill'') \<and> getAttribute e ''fill'' \<noteq> Some ''none'')
     \<longleftrightarrow> paintsFill e"
  by (auto simp: truthy_def paintsFill_def split: option.splits)

lemma inferGeometry_geometry:
  "geometry (inferGeometry rt coords e fy h p) =
     (if closedPathTest (pathData e) \<or> paintsFill e
      then Some (Polygon [map toPosition
                            (closeRing (roundCoords rt (transformedCoords rt coords fy h) p))])
      else Some (LineString
                   (map toPosition (roundCoords rt (transformedCoords rt coords fy h) p))))"
  unfolding inferGeometry_def Let_def pathData_def hasFill_iff by simp

lemma outputCoords_infer:
  assumes "coords \<noteq> []"
  shows "take (length coords) (outputCoords (inferGeometry rt coords e fy h p))
           = map toPosition (roundCoords rt (transformedCoords rt coords fy h) p)"
proof -
  let ?r = "roundCoords rt (transformedCoords rt coords fy h) p"
  have len: "length ?r = length coords"
    by (simp add: length_roundCoords length_transformedCoords)
  then have ne: "?r \<noteq> []" using assms by auto
  show ?thesis
    using len by (simp add: outputCoords_def inferGeometry_geometry closeRing_cases [OF ne])
qed

lemma outputCoords_nth:
  assumes "i < length coords"
  shows "outputCoords (inferGeometry rt coords e fy h p) ! i
           = toPosition (roundOne rt (flipped rt fy h (coords ! i)) p)"
proof -
  from assms have ne: "coords \<noteq> []" by auto
  have "outputCoords (inferGeometry rt coords e fy h p) ! i
          = take (length coords) (outputCoords (inferGeometry rt coords e fy h p)) ! i"
    using assms by simp
  also have "\<dots> = map toPosition (roundCoords rt (transformedCoords rt coords fy h) p) ! i"
    by (simp only: outputCoords_infer [OF ne])
  also have "\<dots> = toPosition (roundOne rt (flipped rt fy h (coords ! i)) p)"
    using assms by (simp add: roundCoords_map transformedCoords_map)
  finally show ?thesis .
qed

lemma inferGeometry_no_height:
  "inferGeometry rt coords e True None p = inferGeometry rt coords e False None p"
  by (simp add: inferGeometry_def transformedCoords_def)

lemma geometry_filledPath:
  "geometry (inferGeometry ideal triangle filledPath True (Some (Fin 100)) (Some (Fin 0)))
     = Some (Polygon [[[Fin 0, Fin 100], [Fin 10, Fin 100], [Fin 10, Fin 90],
                       [Fin 0, Fin 100]]])"
  by (simp add: inferGeometry_def getAttribute_def closedPathTest_def isSpace_def truthy_def
        entry_def roundCoords_def transformedCoords_def toPosition_def closeRing_def
        strictEq_def ideal_def triangle_def filledPath_def)

subsection \<open>The forward conversion\<close>



lemma fold_pushFeature:
  "fold (pushFeature rt env options height) paths acc
     = acc @ map (\<lambda>pe. inferGeometry rt (sample env options pe) pe
                          (orDefault (flipY options) True) height (precision options))
               (filter (\<lambda>pe. sample env options pe \<noteq> []) paths)"
  by (induction paths arbitrary: acc) (simp_all add: pushFeature_def sample_def Let_def)

subsection \<open>Flattening and the bounding box\<close>

lemma fold_push: "fold push cs coll = coll @ cs"
  by (induction cs arbitrary: coll) (simp_all add: push_def)

lemma fold_fold_push: "fold (\<lambda>ring. fold push ring) rings coll = coll @ concat rings"
  by (induction rings arbitrary: coll) (simp_all add: fold_push)

lemma fold_fold_fold_push:
  "fold (\<lambda>poly. fold (\<lambda>ring. fold push ring) poly) polys coll
     = coll @ concat (map concat polys)"
  by (induction polys arbitrary: coll) (simp_all add: fold_fold_push)

lemma fold_appending:
  assumes "\<And>g coll. g \<in> set gs \<Longrightarrow> f g coll = coll @ p g"
  shows "fold f gs coll = coll @ concat (map p gs)"
  using assms by (induction gs arbitrary: coll) simp_all

lemma flattenCoords_positions: "flattenCoords g coll = coll @ positions g"
proof (induction g arbitrary: coll)
  case (GeometryCollection gs)
  then show ?case by (simp add: fold_appending [where p = positions])
qed (simp_all add: push_def fold_push fold_fold_push fold_fold_fold_push)

lemma collect_positions: "collect f coords = coords @ featurePositions f"
  by (simp add: collect_def featurePositions_def flattenCoords_positions split: option.splits)

lemma gatherCoords_allPositions: "gatherCoords gj = allPositions gj"
  by (cases gj)
     (simp_all add: gatherCoords_def collect_positions flattenCoords_positions
        fold_appending [where p = featurePositions])

lemma item_wellformed:
  "2 \<le> length c \<Longrightarrow> item c 0 = Some (c ! 0) \<and> item c 1 = Some (c ! 1)"
  by (auto simp: item_def)

lemma includeCoord_wellformed:
  assumes "2 \<le> length c"
  shows "includeCoord c \<lparr>minX = Some a, minY = Some b, maxX = Some a', maxY = Some b'\<rparr>
           = \<lparr>minX = Some (min a (c ! 0)), minY = Some (min b (c ! 1)),
              maxX = Some (max a' (c ! 0)), maxY = Some (max b' (c ! 1))\<rparr>"
  using item_wellformed [OF assms]
  by (auto simp: includeCoord_def jsLess_def Let_def min_def max_def)

lemma Min_insert_min:
  "finite S \<Longrightarrow> Min (insert (min a x) S) = Min (insert a (insert x S))"
  for a :: real
  by (cases "S = {}") (simp_all add: min.assoc)

lemma Max_insert_max:
  "finite S \<Longrightarrow> Max (insert (max a x) S) = Max (insert a (insert x S))"
  for a :: real
  by (cases "S = {}") (simp_all add: max.assoc)

lemma fold_includeCoord:
  assumes "\<forall>c \<in> set cs. 2 \<le> length c"
  shows "fold includeCoord cs \<lparr>minX = Some a, minY = Some b, maxX = Some a', maxY = Some b'\<rparr>
           = \<lparr>minX = Some (Min (insert a ((\<lambda>c. c ! 0) ` set cs))),
              minY = Some (Min (insert b ((\<lambda>c. c ! 1) ` set cs))),
              maxX = Some (Max (insert a' ((\<lambda>c. c ! 0) ` set cs))),
              maxY = Some (Max (insert b' ((\<lambda>c. c ! 1) ` set cs)))\<rparr>"
  using assms
proof (induction cs arbitrary: a b a' b')
  case Nil
  show ?case by simp
next
  case (Cons c cs)
  then have c: "2 \<le> length c" and cs: "\<forall>c \<in> set cs. 2 \<le> length c" by simp_all
  show ?case
    by (simp add: includeCoord_wellformed [OF c] Cons.IH [OF cs] Min_insert_min Max_insert_max)
qed

lemma computeBoundingBox_wellformed:
  assumes "gatherCoords gj \<noteq> []" and "\<forall>c \<in> set (gatherCoords gj). 2 \<le> length c"
  shows "computeBoundingBox gj
           = Some \<lparr>minX = Some (Min ((\<lambda>c. c ! 0) ` set (gatherCoords gj))),
                   minY = Some (Min ((\<lambda>c. c ! 1) ` set (gatherCoords gj))),
                   maxX = Some (Max ((\<lambda>c. c ! 0) ` set (gatherCoords gj))),
                   maxY = Some (Max ((\<lambda>c. c ! 1) ` set (gatherCoords gj)))\<rparr>"
proof -
  from assms(1) obtain c0 rest where cs: "gatherCoords gj = c0 # rest"
    by (cases "gatherCoords gj") auto
  with assms(2) have c0: "2 \<le> length c0" by simp
  have ins: "insert (c0 ! n) ((\<lambda>c. c ! n) ` set (c0 # rest)) = (\<lambda>c. c ! n) ` set (c0 # rest)"
    for n by auto
  from assms(2) have wf: "\<forall>c \<in> set (c0 # rest). 2 \<le> length c" by (simp add: cs)
  have init: "\<lparr>minX = item c0 0, minY = item c0 1, maxX = item c0 0, maxY = item c0 1\<rparr>
      = \<lparr>minX = Some (c0 ! 0), minY = Some (c0 ! 1),
         maxX = Some (c0 ! 0), maxY = Some (c0 ! 1)\<rparr>"
    using item_wellformed [OF c0] by simp
  have "computeBoundingBox gj
          = Some (fold includeCoord (c0 # rest)
                    \<lparr>minX = item c0 0, minY = item c0 1, maxX = item c0 0, maxY = item c0 1\<rparr>)"
    by (simp only: computeBoundingBox_def Let_def cs list.case)
  also have "\<dots> = Some \<lparr>minX = Some (Min ((\<lambda>c. c ! 0) ` set (c0 # rest))),
                   minY = Some (Min ((\<lambda>c. c ! 1) ` set (c0 # rest))),
                   maxX = Some (Max ((\<lambda>c. c ! 0) ` set (c0 # rest))),
                   maxY = Some (Max ((\<lambda>c. c ! 1) ` set (c0 # rest)))\<rparr>"
    by (simp only: init fold_includeCoord [OF wf] ins)
  finally show ?thesis by (simp only: cs)
qed

lemma computeBoundingBox_None: "computeBoundingBox gj = None \<longleftrightarrow> gatherCoords gj = []"
  by (simp add: computeBoundingBox_def Let_def split: list.splits)

subsection \<open>Typed GeoJSON on the values of the language\<close>


















subsection \<open>The errors of the bounding box on values\<close>

lemma property_error: "property v k = Inl e \<Longrightarrow> e = TypeError"
  by (cases v) simp_all

lemma bindE_error:
  assumes "bindE r f = Inl e"
    and "r = Inl e \<Longrightarrow> P"
    and "\<And>x. r = Inr x \<Longrightarrow> f x = Inl e \<Longrightarrow> P"
  shows P
  using assms by (cases r) (simp_all add: bindE_def)

lemma foldE_error:
  assumes step: "\<And>x s e. f x s = Inl e \<Longrightarrow> e = TypeError"
  shows "foldE f xs s = Inl e \<Longrightarrow> e = TypeError"
proof (induction xs arbitrary: s)
  case Nil
  then show ?case by simp
next
  case (Cons x xs)
  from Cons.prems have "bindE (f x s) (foldE f xs) = Inl e" by simp
  then show ?case
  proof (rule bindE_error)
    assume "f x s = Inl e"
    then show ?thesis by (rule step)
  next
    fix s'
    assume "foldE f xs s' = Inl e"
    then show ?thesis by (rule Cons.IH)
  qed
qed

lemma pushAll_error: "pushAll v coll = Inl e \<Longrightarrow> e = TypeError"
  by (cases v) (simp_all add: pushAll_def)

lemma pushRings_error: "pushRings v coll = Inl e \<Longrightarrow> e = TypeError"
  by (cases v) (auto simp: pushRings_def elim: foldE_error [rotated] pushAll_error)

lemma pushPolys_error: "pushPolys v coll = Inl e \<Longrightarrow> e = TypeError"
  by (cases v) (auto simp: pushPolys_def elim: foldE_error [rotated] pushRings_error)

lemma flatten_error:
  "flattenCoordsValue v coll = Inl e \<longrightarrow> e = TypeError"
  "flattenEach vs coll = Inl e \<longrightarrow> e = TypeError"
proof (induction v coll and vs coll rule: flattenCoordsValue_flattenEach.induct)
  case (7 fs coll)
  then show ?case
    by (auto elim: pushAll_error pushRings_error pushPolys_error
          split: if_splits jsval.splits)
next
  case (9 geom rest coll)
  then show ?case by (auto split: sum.splits)
qed simp_all

lemma flattenCoordsValue_error: "flattenCoordsValue v coll = Inl e \<Longrightarrow> e = TypeError"
  using flatten_error(1) [of v coll e] by simp


lemma collectValue_error: "collectValue v coords = Inl e \<Longrightarrow> e = TypeError"
  by (auto simp: collectValue_def elim!: bindE_error elim: property_error
        flattenCoordsValue_error split: if_splits)

lemma gatherValues_error: "gatherValues v = Inl e \<Longrightarrow> e = TypeError"
  by (auto simp: gatherValues_def elim!: bindE_error split: if_splits jsval.splits)
    (erule property_error flattenCoordsValue_error collectValue_error foldE_error [rotated])+

lemma index_error: "index v i = Inl e \<Longrightarrow> e = TypeError"
  by (cases v) simp_all

lemma firstTwo_error: "firstTwo v = Inl e \<Longrightarrow> e = TypeError"
  by (cases v) simp_all

lemma includeValue_error: "includeValue coerce v b = Inl e \<Longrightarrow> e = TypeError"
  by (auto simp: includeValue_def elim!: bindE_error elim: firstTwo_error split: prod.splits)

lemma computeBoundingBoxValue_error:
  "computeBoundingBoxValue coerce v = Inl e \<Longrightarrow> e = TypeError"
  by (auto simp: computeBoundingBoxValue_def elim!: bindE_error split: list.splits)
    (erule gatherValues_error index_error includeValue_error foldE_error [rotated])+





section \<open>The geometry of a path\<close>

text \<open>
  Claim C1. Whatever the sampled points are, the feature of a path element is a polygon
  with a single ring exactly when the drawing instruction ends in \<open>z\<close> or \<open>Z\<close> followed
  by white space only, or the \<open>fill\<close> attribute is present (there and not empty) and is
  not \<open>none\<close>; it is a line exactly in the other case.
\<close>

theorem inferGeometry_polygon_iff:
  "((\<exists>ring. geometry (inferGeometry rt coords e fy h p) = Some (Polygon [ring]))
      \<longleftrightarrow> endsWithClosePath (pathData e) \<or> paintsFill e)
   \<and> ((\<exists>cs. geometry (inferGeometry rt coords e fy h p) = Some (LineString cs))
      \<longleftrightarrow> \<not> (endsWithClosePath (pathData e) \<or> paintsFill e))"
  by (simp add: inferGeometry_geometry closedPathTest_iff)

text \<open>The filled, closed triangle is a polygon, so one of the two conditions holds for
  it; the open, unfilled one is a line, so none does.\<close>

theorem inferGeometry_polygon_iff_witness:
  "(\<exists>ring. geometry (inferGeometry ideal triangle filledPath True (Some (Fin 100))
                       (Some (Fin 0)))
              = Some (Polygon [ring]))
   \<and> (endsWithClosePath (pathData filledPath) \<or> paintsFill filledPath)
   \<and> (\<exists>cs. geometry (inferGeometry ideal triangle strokedPath True None None)
              = Some (LineString cs))
   \<and> \<not> (endsWithClosePath (pathData strokedPath) \<or> paintsFill strokedPath)"
proof -
  have s: "geometry (inferGeometry ideal triangle strokedPath True None None)
             = Some (LineString (map toPosition triangle))"
    by (simp add: inferGeometry_def getAttribute_def closedPathTest_def isSpace_def truthy_def
          entry_def roundCoords_def transformedCoords_def strokedPath_def)
  from inferGeometry_polygon_iff
         [of ideal triangle filledPath True "Some (Fin 100)" "Some (Fin 0)"]
       inferGeometry_polygon_iff [of ideal triangle strokedPath True None None]
  show ?thesis
    by (simp add: geometry_filledPath s)
qed

text \<open>
  Claim C2. For a non-empty sampled sequence: a polygon has exactly one ring, whose first
  and last positions are equal; the ring starts with the transformed and rounded points,
  unchanged and in order, and is either exactly these (when their first and last are the
  same for \<open>===\<close>) or these followed by a copy of the first. When the first of these
  points has no \<open>NaN\<close> component, being the same for \<open>===\<close> is being equal. A line has
  exactly the transformed and rounded points, as many as were sampled.
\<close>

theorem polygon_ring_closed:
  assumes "coords \<noteq> []"
  shows "(\<forall>rings. geometry (inferGeometry rt coords e fy h p) = Some (Polygon rings) \<longrightarrow>
            (\<exists>ring. rings = [ring] \<and> ring \<noteq> [] \<and> hd ring = last ring
               \<and> take (length coords) ring
                    = map toPosition (roundCoords rt (transformedCoords rt coords fy h) p)
               \<and> (if sameCoord (hd (roundCoords rt (transformedCoords rt coords fy h) p))
                                (last (roundCoords rt (transformedCoords rt coords fy h) p))
                   then ring = take (length coords) ring
                   else ring = take (length coords) ring @ [hd ring])
               \<and> (fst (hd (roundCoords rt (transformedCoords rt coords fy h) p)) \<noteq> NaN
                   \<and> snd (hd (roundCoords rt (transformedCoords rt coords fy h) p)) \<noteq> NaN
                   \<longrightarrow> (if hd (take (length coords) ring) = last (take (length coords) ring)
                        then ring = take (length coords) ring
                        else ring = take (length coords) ring @ [hd ring]))))
       \<and> (\<forall>cs. geometry (inferGeometry rt coords e fy h p) = Some (LineString cs) \<longrightarrow>
            length cs = length coords
            \<and> cs = map toPosition (roundCoords rt (transformedCoords rt coords fy h) p))"
proof -
  let ?r = "roundCoords rt (transformedCoords rt coords fy h) p"
  have len: "length ?r = length coords"
    by (simp add: length_roundCoords length_transformedCoords)
  then have ne: "?r \<noteq> []" using assms by auto
  have hdm: "hd (map toPosition ?r) = toPosition (hd ?r)"
    using ne by (simp add: hd_map)
  have lastm: "last (map toPosition ?r) = toPosition (last ?r)"
    using ne by (simp add: last_map)
  have same: "hd ?r = last ?r" if "sameCoord (hd ?r) (last ?r)"
    using that by (rule sameCoord_eq)
  have plain: "sameCoord (hd ?r) (last ?r) \<longleftrightarrow> hd ?r = last ?r"
    if "fst (hd ?r) \<noteq> NaN" "snd (hd ?r) \<noteq> NaN"
    using that by (rule sameCoord_iff)
  show ?thesis
  proof (cases "sameCoord (hd ?r) (last ?r)")
    case True
    with same have "hd ?r = last ?r" by simp
    with True len ne show ?thesis
      by (auto simp: inferGeometry_geometry closeRing_cases [OF ne] hdm lastm toPosition_inj
            length_roundCoords)
  next
    case False
    with plain have "fst (hd ?r) \<noteq> NaN \<and> snd (hd ?r) \<noteq> NaN \<longrightarrow> hd ?r \<noteq> last ?r" by blast
    with False len ne show ?thesis
      by (auto simp: inferGeometry_geometry closeRing_cases [OF ne] hdm lastm toPosition_inj
            hd_append length_roundCoords)
  qed
qed

text \<open>The triangle of three sampled points, flipped at height 100 and rounded, gets a
  ring of four positions that ends where it starts.\<close>

theorem polygon_ring_closed_witness:
  "triangle \<noteq> []
   \<and> (\<exists>ring. geometry (inferGeometry ideal triangle filledPath True (Some (Fin 100))
                         (Some (Fin 0)))
               = Some (Polygon [ring])
        \<and> ring = [[Fin 0, Fin 100], [Fin 10, Fin 100], [Fin 10, Fin 90], [Fin 0, Fin 100]]
        \<and> hd ring = last ring
        \<and> take (length triangle) ring
            = [[Fin 0, Fin 100], [Fin 10, Fin 100], [Fin 10, Fin 90]])"
proof -
  have ne: "triangle \<noteq> []" and len: "length triangle = 3"
    by (simp_all add: triangle_def)
  from polygon_ring_closed [OF ne, of ideal filledPath True "Some (Fin 100)" "Some (Fin 0)"]
  show ?thesis
    using ne by (simp add: geometry_filledPath len)
qed

text \<open>
  Claim C3. For the sampled point number \<open>i\<close>, \<open>(x, y)\<close>: with the flip requested and a
  height \<open>H\<close>, the output position is the rounding of \<open>(x, H - y)\<close>, where \<open>-\<close> is the
  subtraction of the language; with the flip requested and no height, and with no flip
  requested, it is the rounding of \<open>(x, y)\<close>; in no case is there an error. Without a
  precision these positions are \<open>[x, H - y]\<close> and \<open>[x, y]\<close>, and for a finite height and
  a finite \<open>y\<close> the flipped component is the double nearest to the difference.
\<close>

theorem flipY_output:
  assumes "i < length coords" and "coords ! i = (x, y)"
  shows "outputCoords (inferGeometry rt coords e True (Some H) p) ! i
           = toPosition (roundOne rt (x, minus rt H y) p)
       \<and> outputCoords (inferGeometry rt coords e True None p) ! i
           = toPosition (roundOne rt (x, y) p)
       \<and> outputCoords (inferGeometry rt coords e False h p) ! i
           = toPosition (roundOne rt (x, y) p)
       \<and> outputCoords (inferGeometry rt coords e True (Some H) None) ! i = [x, minus rt H y]
       \<and> outputCoords (inferGeometry rt coords e True None None) ! i = [x, y]
       \<and> outputCoords (inferGeometry rt coords e False h None) ! i = [x, y]
       \<and> (\<forall>a b. H = Fin a \<and> y = Fin b \<longrightarrow>
            outputCoords (inferGeometry rt coords e True (Some H) None) ! i
              = [x, toDouble rt (a - b)])"
  using assms
  by (auto simp: outputCoords_nth flipped_def roundOne_None toPosition_def split: option.splits)

theorem flipY_output_witness:
  "2 < length triangle \<and> triangle ! 2 = (Fin 10, Fin 10)
   \<and> outputCoords (inferGeometry ideal triangle strokedPath True (Some (Fin 100)) None) ! 2
       = [Fin 10, Fin 90]
   \<and> outputCoords (inferGeometry ideal triangle strokedPath True None None) ! 2
       = [Fin 10, Fin 10]
   \<and> outputCoords (inferGeometry ideal triangle strokedPath False (Some (Fin 100)) None) ! 2
       = [Fin 10, Fin 10]"
proof -
  have i: "2 < length triangle" and c: "triangle ! 2 = (Fin 10, Fin 10)"
    by (simp_all add: triangle_def)
  have m: "toDouble ideal 90 = Fin 90" by (simp add: ideal_def)
  from flipY_output [OF i c, of ideal strokedPath "Fin 100" None "Some (Fin 100)"] i c
  show ?thesis by (simp add: m roundOne_None toPosition_def)
qed

section \<open>The reference height\<close>

text \<open>
  Claim C4, amended. A \<open>height\<close> attribute of the root that is not empty and that
  \<open>parseFloat\<close> reads as a number (an infinity included) is the reference height.
  Otherwise a \<open>viewBox\<close> attribute of exactly four components separated by white space
  gives it, as the number read from the fourth component (the one at index 3).
  Otherwise there is no reference height, and then requesting the flip changes nothing.
\<close>

theorem svgHeight_resolution:
  "(\<forall>hh. parseLength rt (getAttribute svg ''height'') = Some hh \<longrightarrow> svgHeight rt svg = Some hh)
   \<and> (\<forall>hh. parseLength rt (getAttribute svg ''height'') = Some hh \<longleftrightarrow>
         (\<exists>v. getAttribute svg ''height'' = Some v \<and> v \<noteq> [] \<and> parseFloat rt v = hh
              \<and> hh \<noteq> NaN))
   \<and> (parseLength rt (getAttribute svg ''height'') = None \<longrightarrow>
        (\<forall>vb a b c d. getAttribute svg ''viewBox'' = Some vb \<and> split_ws (trim vb) = [a, b, c, d]
            \<longrightarrow> svgHeight rt svg
                  = (if parseFloat rt d = NaN then None else Some (parseFloat rt d)))
        \<and> (getAttribute svg ''viewBox'' = None \<longrightarrow> svgHeight rt svg = None)
        \<and> (\<forall>vb. getAttribute svg ''viewBox'' = Some vb \<and> length (split_ws (trim vb)) \<noteq> 4
            \<longrightarrow> svgHeight rt svg = None))
   \<and> (svgHeight rt svg = None \<longrightarrow>
        inferGeometry rt coords e True (svgHeight rt svg) p
          = inferGeometry rt coords e False (svgHeight rt svg) p)"
proof (intro conjI allI impI)
  fix hh assume "parseLength rt (getAttribute svg ''height'') = Some hh"
  then show "svgHeight rt svg = Some hh" by (simp add: svgHeight_def)
next
  fix hh
  show "parseLength rt (getAttribute svg ''height'') = Some hh \<longleftrightarrow>
         (\<exists>v. getAttribute svg ''height'' = Some v \<and> v \<noteq> [] \<and> parseFloat rt v = hh
              \<and> hh \<noteq> NaN)"
    by (cases "getAttribute svg ''height''") (auto simp: parseLength_def truthy_def Let_def)
next
  fix vb a b c d
  assume n: "parseLength rt (getAttribute svg ''height'') = None"
    and v: "getAttribute svg ''viewBox'' = Some vb \<and> split_ws (trim vb) = [a, b, c, d]"
  then have "vb \<noteq> []" using split_ws_trim_Nil by auto
  with n v show "svgHeight rt svg
                  = (if parseFloat rt d = NaN then None else Some (parseFloat rt d))"
    by (simp add: svgHeight_def viewBoxHeight_def truthy_def)
next
  assume "parseLength rt (getAttribute svg ''height'') = None"
    and "getAttribute svg ''viewBox'' = None"
  then show "svgHeight rt svg = None"
    by (simp add: svgHeight_def viewBoxHeight_def truthy_def)
next
  fix vb
  assume "parseLength rt (getAttribute svg ''height'') = None"
    and "getAttribute svg ''viewBox'' = Some vb \<and> length (split_ws (trim vb)) \<noteq> 4"
  then show "svgHeight rt svg = None"
    by (simp add: svgHeight_def viewBoxHeight_def truthy_def)
next
  assume "svgHeight rt svg = None"
  then show "inferGeometry rt coords e True (svgHeight rt svg) p
          = inferGeometry rt coords e False (svgHeight rt svg) p"
    by (simp add: inferGeometry_no_height)
qed

text \<open>A root with a height and a view box, a root whose height is \<open>Infinity\<close>, a root
  with a view box of four components only, and a root with a view box of three
  components.\<close>

theorem svgHeight_resolution_witness:
  "parseLength ideal (getAttribute heightRoot ''height'') = Some (Fin 100)
   \<and> svgHeight ideal heightRoot = Some (Fin 100)
   \<and> parseLength ideal (getAttribute infiniteRoot ''height'') = Some PosInf
   \<and> svgHeight ideal infiniteRoot = Some PosInf
   \<and> parseLength ideal (getAttribute viewBoxRoot ''height'') = None
   \<and> getAttribute viewBoxRoot ''viewBox'' = Some ''0 0 200 100''
   \<and> svgHeight ideal viewBoxRoot = Some (Fin 100)
   \<and> length (split_ws (trim ''0 0 200'')) \<noteq> 4
   \<and> svgHeight ideal bareRoot = None
   \<and> inferGeometry ideal triangle filledPath True (svgHeight ideal bareRoot) None
       = inferGeometry ideal triangle filledPath False (svgHeight ideal bareRoot) None"
proof -
  have h: "parseLength ideal (getAttribute heightRoot ''height'') = Some (Fin 100)"
    by (simp add: parseLength_def getAttribute_def heightRoot_def truthy_def parseFloat_100)
  have f: "parseLength ideal (getAttribute infiniteRoot ''height'') = Some PosInf"
    by (simp add: parseLength_def getAttribute_def infiniteRoot_def truthy_def
          parseFloat_Infinity)
  have v: "parseLength ideal (getAttribute viewBoxRoot ''height'') = None"
    "getAttribute viewBoxRoot ''viewBox'' = Some ''0 0 200 100''"
    by (simp_all add: parseLength_def getAttribute_def viewBoxRoot_def truthy_def)
  have b: "parseLength ideal (getAttribute bareRoot ''height'') = None"
    "getAttribute bareRoot ''viewBox'' = Some ''0 0 200''"
    by (simp_all add: parseLength_def getAttribute_def bareRoot_def truthy_def)
  from svgHeight_resolution [of ideal heightRoot] h
  have 1: "svgHeight ideal heightRoot = Some (Fin 100)" by blast
  from svgHeight_resolution [of ideal infiniteRoot] f
  have 2: "svgHeight ideal infiniteRoot = Some PosInf" by blast
  from svgHeight_resolution [of ideal viewBoxRoot] v split_ws_viewBox
  have "svgHeight ideal viewBoxRoot
          = (if parseFloat ideal ''100'' = NaN then None else Some (parseFloat ideal ''100''))"
    by blast
  then have 3: "svgHeight ideal viewBoxRoot = Some (Fin 100)" by (simp add: parseFloat_100)
  have s: "length (split_ws (trim ''0 0 200'')) \<noteq> 4" by (simp add: split_ws_short)
  from svgHeight_resolution [of ideal bareRoot] b s
  have 4: "svgHeight ideal bareRoot = None" by blast
  from svgHeight_resolution [of ideal bareRoot triangle filledPath None] 4
  have 5: "inferGeometry ideal triangle filledPath True (svgHeight ideal bareRoot) None
       = inferGeometry ideal triangle filledPath False (svgHeight ideal bareRoot) None" by blast
  from h f v 1 2 3 s 4 5 show ?thesis by simp
qed

text \<open>
  Claim C4 as it is worded takes the third component: for the view box \<open>0 0 200 100\<close>
  that is the width 200, while the code resolves the height 100.
\<close>

theorem svgHeight_not_third_component:
  "svgHeight ideal viewBoxRoot = Some (Fin 100)
   \<and> svgHeightThirdComponent ideal viewBoxRoot = Some (Fin 200)"
  by (simp add: svgHeight_def svgHeightThirdComponent_def viewBoxHeight_def parseLength_def
        getAttribute_def truthy_def split_ws_viewBox parseFloat_100 parseFloat_200
        viewBoxRoot_def)

section \<open>Rounding\<close>

text \<open>
  Claim C5, amended. The output position number \<open>i\<close> is the rounding of the transformed
  point number \<open>i\<close>, so rounding comes after the flip; without a precision rounding
  changes nothing. With a precision each component is multiplied by the power of ten,
  the product is rounded by \<open>Math.round\<close> and the result is divided by the power of ten,
  all three in binary64. \<open>Math.round\<close> of a finite product is an integer within one half
  of the product, a tie going to the larger integer: it is the integer nearest to the
  product with ties away from zero whenever the product is not negative or is not a tie,
  and one more than that at a negative tie; it leaves an infinity and \<open>NaN\<close> as they are.
  Where the power of ten, the product and the quotient are computed without rounding
  error and the product is not a negative tie, the result is the product rounded half
  away from zero, divided by the power of ten.
\<close>

theorem rounding_half_up:
  "(i < length coords \<longrightarrow>
      outputCoords (inferGeometry rt coords e fy h p) ! i
        = toPosition (roundOne rt (transformedCoords rt coords fy h ! i) p))
   \<and> roundOne rt c None = c
   \<and> roundOne rt (u, v) (Some q)
       = (divide rt (Math_round (times rt u (pow10 rt q))) (pow10 rt q),
          divide rt (Math_round (times rt v (pow10 rt q))) (pow10 rt q))
   \<and> (\<exists>k::int. Math_round (Fin t) = Fin (of_int k) \<and> t - 1 / 2 < of_int k
         \<and> of_int k \<le> t + 1 / 2)
   \<and> (0 \<le> t \<or> t + 1 / 2 \<notin> \<int> \<longrightarrow> Math_round (Fin t) = Fin (halfAwayFromZero t))
   \<and> (t < 0 \<and> t + 1 / 2 \<in> \<int> \<longrightarrow> Math_round (Fin t) = Fin (halfAwayFromZero t + 1))
   \<and> Math_round PosInf = PosInf \<and> Math_round NegInf = NegInf \<and> Math_round NaN = NaN
   \<and> (pow10 rt q = Fin F \<and> F \<noteq> 0 \<and> toDouble rt (w * F) = Fin (w * F)
        \<and> (0 \<le> w * F \<or> w * F + 1 / 2 \<notin> \<int>)
        \<and> toDouble rt (halfAwayFromZero (w * F) / F) = Fin (halfAwayFromZero (w * F) / F)
      \<longrightarrow> fst (roundOne rt (Fin w, v) (Some q)) = Fin (halfAwayFromZero (w * F) / F))"
proof -
  have 1: "i < length coords \<longrightarrow>
           outputCoords (inferGeometry rt coords e fy h p) ! i
             = toPosition (roundOne rt (transformedCoords rt coords fy h ! i) p)"
    by (simp add: outputCoords_nth transformedCoords_map)
  have 2: "roundOne rt c None = c" by (rule roundOne_None)
  note 3 = roundOne_Some [of rt u v q]
  note 4 = Math_round_bounds [of t]
  have 5: "0 \<le> t \<or> t + 1 / 2 \<notin> \<int> \<longrightarrow> Math_round (Fin t) = Fin (halfAwayFromZero t)"
    using Math_round_away [of t] by blast
  have 6: "t < 0 \<and> t + 1 / 2 \<in> \<int> \<longrightarrow> Math_round (Fin t) = Fin (halfAwayFromZero t + 1)"
    using Math_round_tie [of t] by blast
  have 7: "Math_round PosInf = PosInf \<and> Math_round NegInf = NegInf \<and> Math_round NaN = NaN"
    by simp
  have 8: "pow10 rt q = Fin F \<and> F \<noteq> 0 \<and> toDouble rt (w * F) = Fin (w * F)
        \<and> (0 \<le> w * F \<or> w * F + 1 / 2 \<notin> \<int>)
        \<and> toDouble rt (halfAwayFromZero (w * F) / F) = Fin (halfAwayFromZero (w * F) / F)
      \<longrightarrow> fst (roundOne rt (Fin w, v) (Some q)) = Fin (halfAwayFromZero (w * F) / F)"
  proof
    assume a: "pow10 rt q = Fin F \<and> F \<noteq> 0 \<and> toDouble rt (w * F) = Fin (w * F)
        \<and> (0 \<le> w * F \<or> w * F + 1 / 2 \<notin> \<int>)
        \<and> toDouble rt (halfAwayFromZero (w * F) / F) = Fin (halfAwayFromZero (w * F) / F)"
    then have "Math_round (Fin (w * F)) = Fin (halfAwayFromZero (w * F))"
      using Math_round_away [of "w * F"] by blast
    with a show "fst (roundOne rt (Fin w, v) (Some q)) = Fin (halfAwayFromZero (w * F) / F)"
      by (simp add: roundOne_Some)
  qed
  from 1 2 3 4 5 6 7 8 show ?thesis by blast
qed

theorem rounding_half_up_witness:
  "2 < length triangle
   \<and> outputCoords (inferGeometry ideal triangle filledPath True (Some (Fin 100))
                     (Some (Fin 0))) ! 2
       = toPosition (roundOne ideal (transformedCoords ideal triangle True (Some (Fin 100)) ! 2)
                       (Some (Fin 0)))
   \<and> (0::real) \<le> 5 / 2
   \<and> Math_round (Fin (5 / 2)) = Fin (halfAwayFromZero (5 / 2))
   \<and> halfAwayFromZero (5 / 2) = 3
   \<and> (- 5 / 2 :: real) < 0 \<and> (- 5 / 2 + 1 / 2 :: real) \<in> \<int>
   \<and> Math_round (Fin (- 5 / 2)) = Fin (halfAwayFromZero (- 5 / 2) + 1)
   \<and> pow10 ideal (Fin 0) = Fin 1
   \<and> fst (roundOne ideal (Fin (5 / 2), Fin 0) (Some (Fin 0))) = Fin 3"
proof -
  have i: "2 < length triangle" by (simp add: triangle_def)
  have z: "(- 5 / 2 + 1 / 2 :: real) \<in> \<int>"
  proof -
    have "(- 5 / 2 + 1 / 2 :: real) = of_int (- 2)" by simp
    then show ?thesis by (simp only: Ints_of_int)
  qed
  have hz: "halfAwayFromZero (5 / 2) = 3" by (simp add: halfAwayFromZero_def)
  have p: "pow10 ideal (Fin 0) = Fin 1" and d: "toDouble ideal = Fin"
    by (simp_all add: ideal_def)
  from rounding_half_up
         [of 2 triangle ideal filledPath True "Some (Fin 100)" "Some (Fin 0)" _ _ _ _ "5 / 2"]
    i
  have a: "outputCoords (inferGeometry ideal triangle filledPath True (Some (Fin 100))
                     (Some (Fin 0))) ! 2
       = toPosition (roundOne ideal (transformedCoords ideal triangle True (Some (Fin 100)) ! 2)
                       (Some (Fin 0)))"
    and b: "Math_round (Fin (5 / 2)) = Fin (halfAwayFromZero (5 / 2))"
    by simp_all
  from rounding_half_up [where t = "- 5 / 2"] z
  have c: "Math_round (Fin (- 5 / 2)) = Fin (halfAwayFromZero (- 5 / 2) + 1)" by simp
  from rounding_half_up [where rt = ideal and q = "Fin 0" and F = 1 and w = "5 / 2"] p
  have e: "fst (roundOne ideal (Fin (5 / 2), Fin 0) (Some (Fin 0))) = Fin 3"
    by (simp add: d hz)
  from i a b hz z c p e show ?thesis by simp
qed

text \<open>
  Claim C5 as it is worded fails at a negative tie: \<open>-2.5\<close> rounded to no decimals is
  \<open>-2\<close>, not \<open>-3\<close>. The power of ten is 1 here, and the product and the quotient by 1
  are exact in binary64.
\<close>

theorem roundCoords_negative_tie:
  "roundCoords ideal [(Fin (- 5 / 2), Fin 0)] (Some (Fin 0)) = [(Fin (- 2), Fin 0)]
   \<and> roundHalfAwayFromZero (- 5 / 2) 0 = - 3"
  by (simp add: roundCoords_def roundHalfAwayFromZero_def halfAwayFromZero_def ideal_def)

section \<open>The forward conversion\<close>



text \<open>
  Claim C7. The forward conversion returns an error exactly when the text is empty or
  white space only (\<open>SvgInputEmpty\<close>), or the parsed markup has no \<open>svg\<close> element
  (\<open>NoSvgElement\<close>), or it has no \<open>path\<close> element (\<open>NoPathElements\<close>), and each of these is
  an input error. The reverse conversion returns an input error exactly when the text is
  empty or white space only (\<open>GeoJsonInputEmpty\<close>) or cannot be parsed
  (\<open>GeoJsonInvalid\<close>); in the second case the error is the same whatever the renderer is,
  which is not called. White space is what \<open>trim\<close> removes, the no-break space included.
  An error is returned in place of a result, never with one.
\<close>

theorem input_errors:
  "((\<exists>err. convertSvgToGeoJson rt env t options = Inl err) \<longleftrightarrow>
      (\<forall>c \<in> set t. isSpace c)
      \<or> svgElement (parseMarkup env (sanitized env t)) = None
      \<or> pathElements (parseMarkup env (sanitized env t)) = [])
   \<and> ((\<exists>err. convertSvgToGeoJson rt env t options = Inl err \<and> isInputError err) \<longleftrightarrow>
      (\<forall>c \<in> set t. isSpace c)
      \<or> svgElement (parseMarkup env (sanitized env t)) = None
      \<or> pathElements (parseMarkup env (sanitized env t)) = [])
   \<and> (convertSvgToGeoJson rt env t options = Inl SvgInputEmpty \<longleftrightarrow>
        (\<forall>c \<in> set t. isSpace c))
   \<and> (convertSvgToGeoJson rt env t options = Inl NoSvgElement \<longleftrightarrow>
        \<not> (\<forall>c \<in> set t. isSpace c) \<and> svgElement (parseMarkup env (sanitized env t)) = None)
   \<and> (convertSvgToGeoJson rt env t options = Inl NoPathElements \<longleftrightarrow>
        \<not> (\<forall>c \<in> set t. isSpace c) \<and> svgElement (parseMarkup env (sanitized env t)) \<noteq> None
        \<and> pathElements (parseMarkup env (sanitized env t)) = [])
   \<and> ((\<exists>err. convertGeoJsonToSvg rt renv g goptions = Inl err \<and> isInputError err) \<longleftrightarrow>
        (\<forall>c \<in> set g. isSpace c) \<or> jsonParse renv g = None)
   \<and> (convertGeoJsonToSvg rt renv g goptions = Inl GeoJsonInputEmpty \<longleftrightarrow>
        (\<forall>c \<in> set g. isSpace c))
   \<and> (convertGeoJsonToSvg rt renv g goptions = Inl GeoJsonInvalid \<longleftrightarrow>
        \<not> (\<forall>c \<in> set g. isSpace c) \<and> jsonParse renv g = None)
   \<and> (\<not> (\<forall>c \<in> set g. isSpace c) \<and> jsonParse renv g = None \<longrightarrow>
        (\<forall>render. convertGeoJsonToSvg rt (renv\<lparr>convert := render\<rparr>) g goptions
                    = Inl GeoJsonInvalid))
   \<and> (isSpace ch \<longleftrightarrow> ch \<in> {CHR 0x09, CHR 0x0A, CHR 0x0B, CHR 0x0C, CHR 0x0D, CHR 0x20,
                             CHR 0xA0})"
proof -
  have fwd: "convertSvgToGeoJson rt env t options = Inl err \<Longrightarrow> isInputError err" for err
    by (auto simp: convertSvgToGeoJson_def isInputError_def Let_def
          split: if_splits option.splits)
  have 1: "(\<exists>err. convertSvgToGeoJson rt env t options = Inl err) \<longleftrightarrow>
      (\<forall>c \<in> set t. isSpace c)
      \<or> svgElement (parseMarkup env (sanitized env t)) = None
      \<or> pathElements (parseMarkup env (sanitized env t)) = []"
    by (auto simp: convertSvgToGeoJson_def trim_Nil_iff Let_def split: option.splits)
  have 2: "(\<exists>err. convertSvgToGeoJson rt env t options = Inl err \<and> isInputError err) \<longleftrightarrow>
      (\<exists>err. convertSvgToGeoJson rt env t options = Inl err)"
    using fwd by blast
  have 3: "convertSvgToGeoJson rt env t options = Inl SvgInputEmpty \<longleftrightarrow>
        (\<forall>c \<in> set t. isSpace c)"
    by (auto simp: convertSvgToGeoJson_def trim_Nil_iff Let_def split: option.splits)
  have 4: "convertSvgToGeoJson rt env t options = Inl NoSvgElement \<longleftrightarrow>
        \<not> (\<forall>c \<in> set t. isSpace c) \<and> svgElement (parseMarkup env (sanitized env t)) = None"
    by (auto simp: convertSvgToGeoJson_def trim_Nil_iff Let_def split: option.splits)
  have 5: "convertSvgToGeoJson rt env t options = Inl NoPathElements \<longleftrightarrow>
        \<not> (\<forall>c \<in> set t. isSpace c) \<and> svgElement (parseMarkup env (sanitized env t)) \<noteq> None
        \<and> pathElements (parseMarkup env (sanitized env t)) = []"
    by (auto simp: convertSvgToGeoJson_def trim_Nil_iff Let_def split: option.splits)
  have blank: "trim g = [] \<longleftrightarrow> (\<forall>c \<in> set g. isSpace c)" by (rule trim_Nil_iff)
  have rev: "err = RendererError \<or> err = TypeError"
    if "convertGeoJsonToSvg rt renv g goptions = Inl err" and "trim g \<noteq> []"
      and "jsonParse renv g = Some v" for err v
  proof (cases "convert renv
                  \<lparr>viewportSize = (viewportWidth goptions, viewportHeight goptions),
                   configMapExtent = mapExtent goptions,
                   configMapExtentFromGeojson = mapExtentFromGeojson goptions,
                   configPrecision = precisionOption goptions,
                   configFitTo = fitToOption goptions,
                   pointAsCircle = True,
                   radius = pointRadius goptions\<rparr> v")
    case None
    with that show ?thesis by (simp add: convertGeoJsonToSvg_def)
  next
    case (Some elements)
    with that
    have "bindE (computeBoundingBoxValue (coerceLess renv) v)
            (\<lambda>box. Inr \<lparr>svgText = buildSvgWrapper rt (numberToString renv) elements
                                      (viewportWidth goptions) (viewportHeight goptions)
                                      (mapExtent goptions),
                          elementCount = length elements, bbox = box\<rparr>) = Inl err"
      by (simp add: convertGeoJsonToSvg_def Let_def)
    then have "err = TypeError"
    proof (rule bindE_error)
      assume "computeBoundingBoxValue (coerceLess renv) v = Inl err"
      then show ?thesis by (rule computeBoundingBoxValue_error)
    next
      fix box
      assume "Inr \<lparr>svgText = buildSvgWrapper rt (numberToString renv) elements
                                (viewportWidth goptions) (viewportHeight goptions)
                                (mapExtent goptions),
                   elementCount = length elements, bbox = box\<rparr> = Inl err"
      then show ?thesis by simp
    qed
    then show ?thesis by simp
  qed
  have 7: "convertGeoJsonToSvg rt renv g goptions = Inl GeoJsonInputEmpty \<longleftrightarrow>
        (\<forall>c \<in> set g. isSpace c)"
  proof
    assume a: "convertGeoJsonToSvg rt renv g goptions = Inl GeoJsonInputEmpty"
    show "\<forall>c \<in> set g. isSpace c"
    proof (rule ccontr)
      assume "\<not> (\<forall>c \<in> set g. isSpace c)"
      then have n: "trim g \<noteq> []" by (simp add: blank)
      show False
      proof (cases "jsonParse renv g")
        case None
        with a n show False by (simp add: convertGeoJsonToSvg_def)
      next
        case (Some v)
        from rev [OF a n Some] show False by simp
      qed
    qed
  next
    assume "\<forall>c \<in> set g. isSpace c"
    then show "convertGeoJsonToSvg rt renv g goptions = Inl GeoJsonInputEmpty"
      by (simp add: convertGeoJsonToSvg_def blank)
  qed
  have 8: "convertGeoJsonToSvg rt renv g goptions = Inl GeoJsonInvalid \<longleftrightarrow>
        \<not> (\<forall>c \<in> set g. isSpace c) \<and> jsonParse renv g = None"
  proof
    assume a: "convertGeoJsonToSvg rt renv g goptions = Inl GeoJsonInvalid"
    show "\<not> (\<forall>c \<in> set g. isSpace c) \<and> jsonParse renv g = None"
    proof (cases "trim g = []")
      case True
      with a show ?thesis by (simp add: convertGeoJsonToSvg_def)
    next
      case False
      show ?thesis
      proof (cases "jsonParse renv g")
        case None
        with False show ?thesis by (simp add: blank)
      next
        case (Some v)
        from rev [OF a False Some] show ?thesis by simp
      qed
    qed
  next
    assume "\<not> (\<forall>c \<in> set g. isSpace c) \<and> jsonParse renv g = None"
    then show "convertGeoJsonToSvg rt renv g goptions = Inl GeoJsonInvalid"
      by (simp add: convertGeoJsonToSvg_def blank)
  qed
  have 6: "(\<exists>err. convertGeoJsonToSvg rt renv g goptions = Inl err \<and> isInputError err) \<longleftrightarrow>
        (\<forall>c \<in> set g. isSpace c) \<or> jsonParse renv g = None"
  proof
    assume "\<exists>err. convertGeoJsonToSvg rt renv g goptions = Inl err \<and> isInputError err"
    then obtain err where a: "convertGeoJsonToSvg rt renv g goptions = Inl err"
      and i: "isInputError err" by blast
    show "(\<forall>c \<in> set g. isSpace c) \<or> jsonParse renv g = None"
    proof (rule ccontr)
      assume n: "\<not> ((\<forall>c \<in> set g. isSpace c) \<or> jsonParse renv g = None)"
      then have t: "trim g \<noteq> []" by (simp add: blank)
      from n obtain v where v: "jsonParse renv g = Some v" by auto
      from rev [OF a t v] i show False by (auto simp: isInputError_def)
    qed
  next
    assume "(\<forall>c \<in> set g. isSpace c) \<or> jsonParse renv g = None"
    then have "convertGeoJsonToSvg rt renv g goptions = Inl GeoJsonInputEmpty
               \<or> convertGeoJsonToSvg rt renv g goptions = Inl GeoJsonInvalid"
      using 7 8 by blast
    then show "\<exists>err. convertGeoJsonToSvg rt renv g goptions = Inl err \<and> isInputError err"
      by (auto simp: isInputError_def)
  qed
  have 9: "\<not> (\<forall>c \<in> set g. isSpace c) \<and> jsonParse renv g = None \<longrightarrow>
        (\<forall>render. convertGeoJsonToSvg rt (renv\<lparr>convert := render\<rparr>) g goptions
                    = Inl GeoJsonInvalid)"
    by (simp add: convertGeoJsonToSvg_def blank)
  have 10: "isSpace ch \<longleftrightarrow> ch \<in> {CHR 0x09, CHR 0x0A, CHR 0x0B, CHR 0x0C, CHR 0x0D, CHR 0x20,
                             CHR 0xA0}"
    by (simp add: isSpace_def)
  from 1 2 3 4 5 6 7 8 9 10 show ?thesis by (simp only:)
qed

text \<open>A text of one no-break space is rejected as empty by both conversions; an
  unparsable text is rejected by the reverse conversion, also with a renderer that draws
  something.\<close>

theorem input_errors_witness:
  "list_all isSpace [CHR 0xA0]
   \<and> convertSvgToGeoJson ideal rejecting [CHR 0xA0] noOptions = Inl SvgInputEmpty
   \<and> convertGeoJsonToSvg ideal noJson [CHR 0xA0] anyGeoOptions = Inl GeoJsonInputEmpty
   \<and> \<not> list_all isSpace ''{'' \<and> jsonParse noJson ''{'' = None
   \<and> convertGeoJsonToSvg ideal (noJson\<lparr>convert := \<lambda>cfg g. Some [''<path/>'']\<rparr>) ''{''
         anyGeoOptions
       = Inl GeoJsonInvalid"
proof -
  have b: "\<forall>c \<in> set [CHR 0xA0]. isSpace c" by (simp add: isSpace_def)
  have n: "\<not> (\<forall>c \<in> set ''{''. isSpace c)" by (simp add: isSpace_def)
  have j: "jsonParse noJson ''{'' = None" by (simp add: noJson_def)
  from input_errors [where rt = ideal and env = rejecting and t = "[CHR 0xA0]"
         and options = noOptions] b
  have 1: "convertSvgToGeoJson ideal rejecting [CHR 0xA0] noOptions = Inl SvgInputEmpty"
    by blast
  from input_errors [where rt = ideal and renv = noJson and g = "[CHR 0xA0]"
         and goptions = anyGeoOptions] b
  have 2: "convertGeoJsonToSvg ideal noJson [CHR 0xA0] anyGeoOptions = Inl GeoJsonInputEmpty"
    by blast
  from input_errors [where rt = ideal and renv = noJson and g = "''{''"
         and goptions = anyGeoOptions] n j
  have 3: "convertGeoJsonToSvg ideal (noJson\<lparr>convert := \<lambda>cfg g. Some [''<path/>'']\<rparr>) ''{''
             anyGeoOptions
       = Inl GeoJsonInvalid" by blast
  from b n j 1 2 3 show ?thesis by (simp add: list_all_iff)
qed

text \<open>
  Claim C9. When the forward conversion succeeds, its features are those inferred for the
  path elements whose sampled sequence is not empty, in document order; a path element
  with an empty sequence gives no feature. The path count is the number of all path
  elements, the feature count is the number of features, that is of path elements with a
  non-empty sequence.
\<close>

theorem skipped_paths_counted:
  assumes "convertSvgToGeoJson rt env t options = Inr res"
  shows "\<exists>svg. svgElement (parseMarkup env (sanitized env t)) = Some svg
           \<and> collection res
               = map (\<lambda>pe. inferGeometry rt (sample env options pe) pe
                              (orDefault (flipY options) True) (svgHeight rt svg)
                              (precision options))
                   (filter (\<lambda>pe. sample env options pe \<noteq> [])
                      (pathElements (parseMarkup env (sanitized env t))))
           \<and> pathCount (metadata res) = length (pathElements (parseMarkup env (sanitized env t)))
           \<and> featureCount (metadata res) = length (collection res)
           \<and> featureCount (metadata res)
               = length (filter (\<lambda>pe. sample env options pe \<noteq> [])
                           (pathElements (parseMarkup env (sanitized env t))))
           \<and> featureCount (metadata res) \<le> pathCount (metadata res)"
proof -
  from assms obtain svg where svg: "svgElement (parseMarkup env (sanitized env t)) = Some svg"
    by (auto simp: convertSvgToGeoJson_def Let_def split: if_splits option.splits)
  from assms svg have res: "res = \<lparr>collection =
        fold (pushFeature rt env options (svgHeight rt svg))
          (pathElements (parseMarkup env (sanitized env t))) [],
      metadata = \<lparr>featureCount = length (fold (pushFeature rt env options (svgHeight rt svg))
          (pathElements (parseMarkup env (sanitized env t))) []),
        pathCount = length (pathElements (parseMarkup env (sanitized env t))),
        samplePointsUsed = orDefault (samplePoints options) DEFAULT_SAMPLE_POINTS\<rparr>\<rparr>"
    by (auto simp: convertSvgToGeoJson_def Let_def split: if_splits)
  show ?thesis
    using svg unfolding res by (simp add: fold_pushFeature)
qed

text \<open>Three path elements, the second without a sampled point: two features, in order,
  and a path count of three.\<close>

theorem skipped_paths_counted_witness:
  "\<exists>res. convertSvgToGeoJson ideal rejecting ''<svg/>'' noOptions = Inr res
     \<and> collection res
         = [inferGeometry ideal triangle filledPath True (Some (Fin 100)) None,
            inferGeometry ideal triangle strokedPath True (Some (Fin 100)) None]
     \<and> pathCount (metadata res) = 3
     \<and> featureCount (metadata res) = 2"
proof -
  have s: "sample rejecting noOptions filledPath = triangle"
    "sample rejecting noOptions emptyPath = []"
    "sample rejecting noOptions strokedPath = triangle"
    by (simp_all add: sample_def rejecting_def pathData_def getAttribute_def filledPath_def
          emptyPath_def strokedPath_def)
  have ne: "triangle \<noteq> []" by (simp add: triangle_def)
  have o: "flipY noOptions = None" "precision noOptions = None"
    by (simp_all add: noOptions_def)
  have h: "svgHeight ideal heightRoot = Some (Fin 100)"
    by (simp add: svgHeight_def parseLength_def getAttribute_def heightRoot_def truthy_def
          parseFloat_100)
  have d: "parseMarkup rejecting x
             = \<lparr>svgElement = Some heightRoot,
                pathElements = [filledPath, emptyPath, strokedPath]\<rparr>" for x
    by (simp add: rejecting_def)
  have "\<exists>res. convertSvgToGeoJson ideal rejecting ''<svg/>'' noOptions = Inr res"
    by (simp add: convertSvgToGeoJson_def d trim_def isSpace_def Let_def)
  then obtain res where res: "convertSvgToGeoJson ideal rejecting ''<svg/>'' noOptions = Inr res" ..
  from skipped_paths_counted [OF res]
  have "collection res
         = [inferGeometry ideal triangle filledPath True (Some (Fin 100)) None,
            inferGeometry ideal triangle strokedPath True (Some (Fin 100)) None]
     \<and> pathCount (metadata res) = 3
     \<and> featureCount (metadata res) = 2"
    by (simp add: d s ne h o orDefault_def)
  with res show ?thesis by blast
qed

section \<open>The bounding box\<close>

text \<open>
  Claim C8. Flattening a geometry appends its positions, in order, to the collection:
  the position of a point, the positions of a multi-point or line, of the rings of a
  multi-line or polygon, of the rings of the polygons of a multi-polygon, and of the
  members of a collection, at any depth. For a feature collection, a feature or a
  geometry, the bounding box is \<open>None\<close> exactly when there is no position; when there is
  one and every position has its two components, the box holds the least and the greatest
  first component and the least and the greatest second component. An empty feature
  collection has no box; the point feature at \<open>(3, 4)\<close> has the box \<open>3, 4, 3, 4\<close>.
\<close>

theorem bounding_box_min_max:
  "flattenCoords g coll = coll @ positions g
   \<and> gatherCoords gj = allPositions gj
   \<and> (computeBoundingBox gj = None \<longleftrightarrow> allPositions gj = [])
   \<and> (allPositions gj \<noteq> [] \<and> (\<forall>c \<in> set (allPositions gj). 2 \<le> length c) \<longrightarrow>
        computeBoundingBox gj
          = Some \<lparr>minX = Some (Min ((\<lambda>c. c ! 0) ` set (allPositions gj))),
                  minY = Some (Min ((\<lambda>c. c ! 1) ` set (allPositions gj))),
                  maxX = Some (Max ((\<lambda>c. c ! 0) ` set (allPositions gj))),
                  maxY = Some (Max ((\<lambda>c. c ! 1) ` set (allPositions gj)))\<rparr>)
   \<and> computeBoundingBox (FeatureCollection []) = None
   \<and> computeBoundingBox (FeatureObject \<lparr>geometry = Some (Point [3, 4]), properties = ps\<rparr>)
       = Some \<lparr>minX = Some 3, minY = Some 4, maxX = Some 3, maxY = Some 4\<rparr>"
proof (intro conjI impI)
  show "flattenCoords g coll = coll @ positions g" by (rule flattenCoords_positions)
  show "gatherCoords gj = allPositions gj" by (rule gatherCoords_allPositions)
  show "computeBoundingBox gj = None \<longleftrightarrow> allPositions gj = []"
    by (simp add: computeBoundingBox_None gatherCoords_allPositions)
  show "computeBoundingBox (FeatureCollection []) = None"
    by (simp add: computeBoundingBox_None gatherCoords_def)
  show "computeBoundingBox (FeatureObject \<lparr>geometry = Some (Point [3, 4]), properties = ps\<rparr>)
       = Some \<lparr>minX = Some 3, minY = Some 4, maxX = Some 3, maxY = Some 4\<rparr>"
    by (simp add: computeBoundingBox_def gatherCoords_def collect_def push_def includeCoord_def
          item_def jsLess_def Let_def)
next
  assume "allPositions gj \<noteq> [] \<and> (\<forall>c \<in> set (allPositions gj). 2 \<le> length c)"
  then show "computeBoundingBox gj
          = Some \<lparr>minX = Some (Min ((\<lambda>c. c ! 0) ` set (allPositions gj))),
                  minY = Some (Min ((\<lambda>c. c ! 1) ` set (allPositions gj))),
                  maxX = Some (Max ((\<lambda>c. c ! 0) ` set (allPositions gj))),
                  maxY = Some (Max ((\<lambda>c. c ! 1) ` set (allPositions gj)))\<rparr>"
    using computeBoundingBox_wellformed [of gj] by (simp add: gatherCoords_allPositions)
qed

text \<open>A collection holding a point, an object of another kind and a nested collection
  with a line.\<close>

theorem bounding_box_min_max_witness:
  "allPositions mixedGeometry = [[3, 4], [1, 7], [5, 2]]
   \<and> list_all (\<lambda>c. 2 \<le> length c) (allPositions mixedGeometry)
   \<and> computeBoundingBox mixedGeometry
       = Some \<lparr>minX = Some 1, minY = Some 2, maxX = Some 5, maxY = Some 7\<rparr>"
proof -
  have p: "allPositions mixedGeometry = [[3, 4], [1, 7], [5, 2]]"
    by (simp add: mixedGeometry_def)
  have w: "allPositions mixedGeometry \<noteq> []
           \<and> (\<forall>c \<in> set (allPositions mixedGeometry). 2 \<le> length c)"
    by (simp add: p)
  from bounding_box_min_max [of _ _ mixedGeometry] w
  have "computeBoundingBox mixedGeometry
          = Some \<lparr>minX = Some (Min ((\<lambda>c. c ! 0) ` set (allPositions mixedGeometry))),
                  minY = Some (Min ((\<lambda>c. c ! 1) ` set (allPositions mixedGeometry))),
                  maxX = Some (Max ((\<lambda>c. c ! 0) ` set (allPositions mixedGeometry))),
                  maxY = Some (Max ((\<lambda>c. c ! 1) ` set (allPositions mixedGeometry)))\<rparr>"
    by blast
  then show ?thesis using w by (simp add: p)
qed




end
